theory Spec2Isabelle
  imports Complex_Main "HOL-Library.Monad_Syntax"
begin

section \<open>Arrays and the symbolic tensor engine\<close>

text \<open>
  The two source files, \<^verbatim>\<open>pymc3/gp/cov.py\<close> and \<^verbatim>\<open>pymc3/gp/gp.py\<close>, build symbolic
  expressions with the tensor library (\<^verbatim>\<open>tt.dot\<close>, \<^verbatim>\<open>tt.exp\<close>, \<^verbatim>\<open>cholesky\<close>, ...) and
  leave their evaluation to that library. The embedding keeps the two levels apart:
  a Python function of the source becomes a HOL function that returns the expression
  graph it builds (type \<open>tt\<close>), and \<open>evaluate\<close> below gives a graph its numeric meaning.

  Floating-point numbers are idealised as reals. An operation whose floating-point
  result would be infinite or NaN (division by zero, logarithm of a non-positive number,
  square root of a negative number, a Cholesky pivot that is not positive) has no value
  here: evaluation returns \<open>None\<close>, as it does where the library raises (a shape
  mismatch, an index out of range).
\<close>

datatype error =
    ValueError | TypeError | AttributeError | NotImplementedError | GPValueError

text \<open>An array of at most two dimensions; a matrix is the list of its rows.\<close>

datatype tensor = Scalar real | Vec "real list" | Mat "real list list"

fun ndim :: "tensor \<Rightarrow> nat" where
  "ndim (Scalar _) = 0"
| "ndim (Vec _) = 1"
| "ndim (Mat _) = 2"

definition rect :: "nat \<Rightarrow> real list list \<Rightarrow> bool" where
  "rect c M = list_all (\<lambda>r. length r = c) M"

definition ncols :: "real list list \<Rightarrow> nat" where
  "ncols M = (case M of [] \<Rightarrow> 0 | r # _ \<Rightarrow> length r)"

fun wf_tensor :: "tensor \<Rightarrow> bool" where
  "wf_tensor (Mat M) = rect (ncols M) M"
| "wf_tensor _ = True"

subsection \<open>Elementwise operations with broadcasting\<close>

text \<open>
  \<open>zip_bc\<close> combines two lists along one axis: equal extents pair up, an extent of
  one is repeated, anything else is a shape error. A binary elementwise operation
  pads its operands with leading axes of extent one, combines along both axes and
  returns the result at the larger of the two ranks.
\<close>

definition zip_bc :: "('a \<Rightarrow> 'b \<Rightarrow> 'c option) \<Rightarrow> 'a list \<Rightarrow> 'b list \<Rightarrow> 'c list option" where
  "zip_bc f xs ys =
     (if length xs = length ys then those (map2 f xs ys)
      else if length xs = 1 then those (map (f (hd xs)) ys)
      else if length ys = 1 then those (map (\<lambda>x. f x (hd ys)) xs)
      else None)"

fun to_mat :: "tensor \<Rightarrow> real list list" where
  "to_mat (Scalar a) = [[a]]"
| "to_mat (Vec v) = [v]"
| "to_mat (Mat M) = M"

fun of_mat :: "nat \<Rightarrow> real list list \<Rightarrow> tensor option" where
  "of_mat 0 [[a]] = Some (Scalar a)"
| "of_mat (Suc 0) [v] = Some (Vec v)"
| "of_mat (Suc (Suc 0)) M = Some (Mat M)"
| "of_mat _ _ = None"

definition binop :: "(real \<Rightarrow> real \<Rightarrow> real option) \<Rightarrow> tensor \<Rightarrow> tensor \<Rightarrow> tensor option" where
  "binop f s t =
     (case zip_bc (zip_bc f) (to_mat s) (to_mat t) of
        None \<Rightarrow> None
      | Some M \<Rightarrow> of_mat (max (ndim s) (ndim t)) M)"

fun unop :: "(real \<Rightarrow> real option) \<Rightarrow> tensor \<Rightarrow> tensor option" where
  "unop f (Scalar a) = map_option Scalar (f a)"
| "unop f (Vec v) = map_option Vec (those (map f v))"
| "unop f (Mat M) = map_option Mat (those (map (\<lambda>r. those (map f r)) M))"

definition f_add :: "real \<Rightarrow> real \<Rightarrow> real option" where "f_add a b = Some (a + b)"
definition f_sub :: "real \<Rightarrow> real \<Rightarrow> real option" where "f_sub a b = Some (a - b)"
definition f_mul :: "real \<Rightarrow> real \<Rightarrow> real option" where "f_mul a b = Some (a * b)"

definition f_div :: "real \<Rightarrow> real \<Rightarrow> real option" where
  "f_div a b = (if b = 0 then None else Some (a / b))"

definition f_pow :: "real \<Rightarrow> real \<Rightarrow> real option" where
  "f_pow a b =
     (if 0 < a then Some (a powr b)
      else if a = 0 then (if 0 < b then Some 0 else if b = 0 then Some 1 else None)
      else if b \<in> \<int> \<and> 0 \<le> b then Some (a ^ nat \<lfloor>b\<rfloor>)
      else if b \<in> \<int> then Some (1 / a ^ nat \<lfloor>- b\<rfloor>)
      else None)"

definition f_log :: "real \<Rightarrow> real option" where
  "f_log a = (if 0 < a then Some (ln a) else None)"

definition f_sqrt :: "real \<Rightarrow> real option" where
  "f_sqrt a = (if 0 \<le> a then Some (sqrt a) else None)"

definition f_clip :: "real \<Rightarrow> real option \<Rightarrow> real \<Rightarrow> real option" where
  "f_clip lo hi a =
     Some (case hi of None \<Rightarrow> max lo a | Some h \<Rightarrow> min h (max lo a))"

subsection \<open>Linear algebra\<close>

definition dotp :: "real list \<Rightarrow> real list \<Rightarrow> real" where
  "dotp xs ys = sum_list (map2 (*) xs ys)"

definition diagonal :: "real list list \<Rightarrow> real list" where
  "diagonal M = map (\<lambda>i. M ! i ! i) [0..<min (length M) (ncols M)]"

definition eye :: "nat \<Rightarrow> real list list" where
  "eye n = map (\<lambda>i. map (\<lambda>j. if i = j then 1 else 0) [0..<n]) [0..<n]"

definition dot :: "tensor \<Rightarrow> tensor \<Rightarrow> tensor option" where
  "dot s t =
     (case (s, t) of
        (Mat A, Mat B) \<Rightarrow>
          if rect (length B) A
          then Some (Mat (map (\<lambda>r. map (dotp r) (transpose B)) A)) else None
      | (Mat A, Vec v) \<Rightarrow>
          if rect (length v) A then Some (Vec (map (\<lambda>r. dotp r v) A)) else None
      | (Vec u, Mat B) \<Rightarrow>
          if length u = length B then Some (Vec (map (dotp u) (transpose B))) else None
      | (Vec u, Vec v) \<Rightarrow>
          if length u = length v then Some (Scalar (dotp u v)) else None
      | _ \<Rightarrow> binop f_mul s t)"

text \<open>
  Modelled from the spec: the linear-algebra primitives are collaborators outside the
  two source files (section 6: \<^verbatim>\<open>cholesky(M)\<close> gives the lower-triangular factor,
  \<^verbatim>\<open>solve_lower\<close>/\<^verbatim>\<open>solve_upper(L, B)\<close> are triangular solves). The Cholesky factor is
  computed row by row; a pivot that is not positive has no real factor.
\<close>

fun chol_entries :: "real list \<Rightarrow> real list list \<Rightarrow> real list \<Rightarrow> real list" where
  "chol_entries a [] acc = acc"
| "chol_entries a (l # prev) acc =
     (let j = length acc
      in chol_entries a prev (acc @ [(a ! j - dotp acc (take j l)) / l ! j]))"

fun chol_rows :: "real list list \<Rightarrow> real list list \<Rightarrow> real list list option" where
  "chol_rows [] Ls = Some Ls"
| "chol_rows (a # As) Ls =
     (let i = length Ls;
          acc = chol_entries a Ls [];
          p = a ! i - dotp acc acc
      in if p \<le> 0 then None
         else chol_rows As (Ls @ [acc @ [sqrt p] @ replicate (length a - i - 1) 0]))"

definition cholesky_m :: "real list list \<Rightarrow> real list list option" where
  "cholesky_m A = (if rect (length A) A then chol_rows A [] else None)"

fun fsub :: "real list list \<Rightarrow> real list \<Rightarrow> real list \<Rightarrow> real list" where
  "fsub [] b xs = xs"
| "fsub (l # Ls) b xs =
     (let i = length xs in fsub Ls b (xs @ [(b ! i - dotp (take i l) xs) / l ! i]))"

definition solve_lower_v :: "real list list \<Rightarrow> real list \<Rightarrow> real list option" where
  "solve_lower_v L b =
     (if rect (length L) L \<and> length b = length L \<and> 0 \<notin> set (diagonal L)
      then Some (fsub L b []) else None)"

definition solve_upper_v :: "real list list \<Rightarrow> real list \<Rightarrow> real list option" where
  "solve_upper_v U b = map_option rev (solve_lower_v (rev (map rev U)) (rev b))"

definition solve_with ::
  "(real list list \<Rightarrow> real list \<Rightarrow> real list option) \<Rightarrow> tensor \<Rightarrow> tensor \<Rightarrow> tensor option" where
  "solve_with solve s t =
     (case (s, t) of
        (Mat L, Vec b) \<Rightarrow> map_option Vec (solve L b)
      | (Mat L, Mat B) \<Rightarrow>
          if rect (ncols B) B \<and> length B = length L
          then map_option (\<lambda>cs. Mat (transpose cs)) (those (map (solve L) (transpose B)))
          else None
      | _ \<Rightarrow> None)"

subsection \<open>Indexing columns\<close>

text \<open>
  \<^verbatim>\<open>X[:, active_dims]\<close>: \<^verbatim>\<open>active_dims\<close> is a numpy array of integers (an index per
  selected column, negative ones counting from the end) or of booleans (a mask as long as
  the row).
\<close>

datatype adims = Ints "int list" | Bools "bool list"

definition index_col :: "nat \<Rightarrow> int \<Rightarrow> nat option" where
  "index_col c i =
     (let j = (if i < 0 then int c + i else i)
      in if 0 \<le> j \<and> j < int c then Some (nat j) else None)"

definition col_indices :: "nat \<Rightarrow> adims \<Rightarrow> nat list option" where
  "col_indices c a =
     (case a of
        Ints js \<Rightarrow> those (map (index_col c) js)
      | Bools bs \<Rightarrow>
          if length bs = c then Some (filter (\<lambda>j. bs ! j) [0..<c]) else None)"

definition take_cols :: "adims \<Rightarrow> tensor \<Rightarrow> tensor option" where
  "take_cols a t =
     (case t of
        Mat M \<Rightarrow>
          (case col_indices (ncols M) a of
             None \<Rightarrow> None
           | Some js \<Rightarrow> Some (Mat (map (\<lambda>r. map (\<lambda>j. r ! j) js) M)))
      | _ \<Rightarrow> None)"

subsection \<open>Expression graphs\<close>

text \<open>
  A graph node applies an operation of the tensor library to its inputs. The names
  follow the calls in the source: \<open>tt_dot\<close> is \<^verbatim>\<open>tt.dot\<close>, \<open>cholesky\<close> the
  module-level \<^verbatim>\<open>cholesky = Cholesky(nofail=True, lower=True)\<close>, and so on. \<open>op_clip\<close>
  carries its bounds (\<open>None\<close> for \<^verbatim>\<open>np.inf\<close>); \<open>op_ones\<close> and \<open>op_zeros\<close> take the
  extents that the source stacks into a shape; \<open>op_reshape True\<close> is the reshape to
  \<^verbatim>\<open>(-1, 1)\<close>, \<open>op_reshape False\<close> the one to \<^verbatim>\<open>(1, -1)\<close>.
\<close>

datatype op =
    op_add | op_sub | op_mul | op_true_div | op_pow
  | op_dot | op_transpose | op_trace | op_eye | op_shape0 | op_diag
  | op_cholesky | op_solve_lower | op_solve_upper
  | op_sum | op_sum_axis nat | op_clip real "real option"
  | op_ones_like | op_ones | op_zeros
  | op_sqr | op_sqrt | op_exp | op_log | op_cos
  | op_reshape bool | op_take_cols adims

datatype tt = T_const tensor | T_var string nat | Apply op "tt list"

definition extent :: "real \<Rightarrow> nat option" where
  "extent r = (if 0 \<le> r \<and> r = of_int \<lfloor>r\<rfloor> then Some (nat \<lfloor>r\<rfloor>) else None)"

definition flat :: "tensor \<Rightarrow> real list" where
  "flat t = concat (to_mat t)"

fun t_transpose :: "tensor \<Rightarrow> tensor" where
  "t_transpose (Mat M) = Mat (transpose M)"
| "t_transpose t = t"

fun t_trace :: "tensor \<Rightarrow> tensor option" where
  "t_trace (Mat M) = Some (Scalar (sum_list (diagonal M)))"
| "t_trace _ = None"

fun t_shape0 :: "tensor \<Rightarrow> tensor option" where
  "t_shape0 (Mat M) = Some (Scalar (of_nat (length M)))"
| "t_shape0 (Vec v) = Some (Scalar (of_nat (length v)))"
| "t_shape0 (Scalar _) = None"

fun t_diag :: "tensor \<Rightarrow> tensor option" where
  "t_diag (Mat M) = Some (Vec (diagonal M))"
| "t_diag (Vec v) =
     Some (Mat (map (\<lambda>i. map (\<lambda>j. if i = j then v ! i else 0) [0..<length v]) [0..<length v]))"
| "t_diag (Scalar _) = None"

fun t_cholesky :: "tensor \<Rightarrow> tensor option" where
  "t_cholesky (Mat A) = map_option Mat (cholesky_m A)"
| "t_cholesky _ = None"

fun t_sum_axis :: "nat \<Rightarrow> tensor \<Rightarrow> tensor option" where
  "t_sum_axis k (Mat M) =
     (if k = 0 then (if rect (ncols M) M then Some (Vec (map sum_list (transpose M))) else None)
      else if k = 1 then Some (Vec (map sum_list M))
      else None)"
| "t_sum_axis k (Vec v) = (if k = 0 then Some (Scalar (sum_list v)) else None)"
| "t_sum_axis k (Scalar _) = None"

fun t_extent :: "tensor \<Rightarrow> nat option" where
  "t_extent (Scalar n) = extent n"
| "t_extent _ = None"

definition t_zeros :: "tensor \<Rightarrow> tensor \<Rightarrow> tensor option" where
  "t_zeros n m =
     (case (t_extent n, t_extent m) of
        (Some k, Some l) \<Rightarrow> Some (Mat (replicate k (replicate l 0)))
      | _ \<Rightarrow> None)"

fun perform1 :: "op \<Rightarrow> tensor \<Rightarrow> tensor option" where
  "perform1 op_transpose t = Some (t_transpose t)"
| "perform1 op_trace t = t_trace t"
| "perform1 op_eye t = map_option (\<lambda>k. Mat (eye k)) (t_extent t)"
| "perform1 op_shape0 t = t_shape0 t"
| "perform1 op_diag t = t_diag t"
| "perform1 op_cholesky t = t_cholesky t"
| "perform1 op_sum t = Some (Scalar (sum_list (flat t)))"
| "perform1 (op_sum_axis k) t = t_sum_axis k t"
| "perform1 (op_clip lo hi) t = unop (f_clip lo hi) t"
| "perform1 op_ones_like t = unop (\<lambda>_. Some 1) t"
| "perform1 op_ones t = map_option (\<lambda>k. Vec (replicate k 1)) (t_extent t)"
| "perform1 op_zeros t = map_option (\<lambda>k. Vec (replicate k 0)) (t_extent t)"
| "perform1 op_sqr t = unop (\<lambda>a. Some (a * a)) t"
| "perform1 op_sqrt t = unop f_sqrt t"
| "perform1 op_exp t = unop (\<lambda>a. Some (exp a)) t"
| "perform1 op_log t = unop f_log t"
| "perform1 op_cos t = unop (\<lambda>a. Some (cos a)) t"
| "perform1 (op_reshape col) t =
     Some (Mat (if col then map (\<lambda>a. [a]) (flat t) else [flat t]))"
| "perform1 (op_take_cols a) t = take_cols a t"
| "perform1 _ _ = None"

fun perform2 :: "op \<Rightarrow> tensor \<Rightarrow> tensor \<Rightarrow> tensor option" where
  "perform2 op_add s t = binop f_add s t"
| "perform2 op_sub s t = binop f_sub s t"
| "perform2 op_mul s t = binop f_mul s t"
| "perform2 op_true_div s t = binop f_div s t"
| "perform2 op_pow s t = binop f_pow s t"
| "perform2 op_dot s t = dot s t"
| "perform2 op_solve_lower s t = solve_with solve_lower_v s t"
| "perform2 op_solve_upper s t = solve_with solve_upper_v s t"
| "perform2 op_zeros s t = t_zeros s t"
| "perform2 _ _ _ = None"

fun perform :: "op \<Rightarrow> tensor list \<Rightarrow> tensor option" where
  "perform f [t] = perform1 f t"
| "perform f [s, t] = perform2 f s t"
| "perform f _ = None"

text \<open>
  Evaluation at a point: \<open>\<rho>\<close> gives the value of each variable (a random variable of the
  model, a shared variable). A constant must be a well-formed array.
\<close>

fun evaluate :: "(string \<Rightarrow> tensor option) \<Rightarrow> tt \<Rightarrow> tensor option" where
  "evaluate \<rho> (T_const t) = (if wf_tensor t then Some t else None)"
| "evaluate \<rho> (T_var x _) = \<rho> x"
| "evaluate \<rho> (Apply f ins) =
     (case those (map (evaluate \<rho>) ins) of None \<Rightarrow> None | Some vs \<Rightarrow> perform f vs)"

text \<open>The static number of dimensions of a graph (the \<^verbatim>\<open>ndim\<close> attribute of a variable).\<close>

fun tt_ndim :: "tt \<Rightarrow> nat" where
  "tt_ndim (T_const t) = ndim t"
| "tt_ndim (T_var _ n) = n"
| "tt_ndim (Apply f ins) =
     (let ns = map tt_ndim ins in
      if f \<in> {op_add, op_sub, op_mul, op_true_div, op_pow} then fold max ns 0
      else if f = op_dot then
        (case ns of [n, m] \<Rightarrow> if n = 0 \<or> m = 0 then max n m else n + m - 2 | _ \<Rightarrow> 0)
      else if f \<in> {op_trace, op_shape0, op_sum} then 0
      else if f \<in> {op_eye, op_cholesky, op_reshape True, op_reshape False} then 2
      else if f \<in> {op_ones, op_zeros} then length ns
      else if f = op_diag then (case ns of [n] \<Rightarrow> if n = 2 then 1 else 2 | _ \<Rightarrow> 0)
      else if f \<in> {op_solve_lower, op_solve_upper} then (case ns of [_, m] \<Rightarrow> m | _ \<Rightarrow> 0)
      else if f \<in> {op_sum_axis 0, op_sum_axis 1} then (case ns of [n] \<Rightarrow> n - 1 | _ \<Rightarrow> 0)
      else (case ns of n # _ \<Rightarrow> n | _ \<Rightarrow> 0))"

abbreviation num :: "real \<Rightarrow> tt" where "num r \<equiv> T_const (Scalar r)"
abbreviation tt_add :: "tt \<Rightarrow> tt \<Rightarrow> tt" where "tt_add a b \<equiv> Apply op_add [a, b]"
abbreviation tt_sub :: "tt \<Rightarrow> tt \<Rightarrow> tt" where "tt_sub a b \<equiv> Apply op_sub [a, b]"
abbreviation tt_mul :: "tt \<Rightarrow> tt \<Rightarrow> tt" where "tt_mul a b \<equiv> Apply op_mul [a, b]"
abbreviation tt_true_div :: "tt \<Rightarrow> tt \<Rightarrow> tt" where "tt_true_div a b \<equiv> Apply op_true_div [a, b]"
abbreviation tt_power :: "tt \<Rightarrow> tt \<Rightarrow> tt" where "tt_power a b \<equiv> Apply op_pow [a, b]"
abbreviation tt_dot :: "tt \<Rightarrow> tt \<Rightarrow> tt" where "tt_dot a b \<equiv> Apply op_dot [a, b]"
abbreviation tt_transpose :: "tt \<Rightarrow> tt" where "tt_transpose a \<equiv> Apply op_transpose [a]"
abbreviation tt_trace :: "tt \<Rightarrow> tt" where "tt_trace a \<equiv> Apply op_trace [a]"
abbreviation tt_eye :: "tt \<Rightarrow> tt" where "tt_eye n \<equiv> Apply op_eye [n]"
abbreviation shape0 :: "tt \<Rightarrow> tt" where "shape0 a \<equiv> Apply op_shape0 [a]"
abbreviation tt_diag :: "tt \<Rightarrow> tt" where "tt_diag a \<equiv> Apply op_diag [a]"
abbreviation cholesky :: "tt \<Rightarrow> tt" where "cholesky a \<equiv> Apply op_cholesky [a]"
abbreviation solve_lower :: "tt \<Rightarrow> tt \<Rightarrow> tt" where "solve_lower a b \<equiv> Apply op_solve_lower [a, b]"
abbreviation solve_upper :: "tt \<Rightarrow> tt \<Rightarrow> tt" where "solve_upper a b \<equiv> Apply op_solve_upper [a, b]"
abbreviation tt_sum :: "tt \<Rightarrow> tt" where "tt_sum a \<equiv> Apply op_sum [a]"
abbreviation tt_sum_axis :: "tt \<Rightarrow> nat \<Rightarrow> tt" where "tt_sum_axis a k \<equiv> Apply (op_sum_axis k) [a]"
abbreviation tt_clip :: "tt \<Rightarrow> real \<Rightarrow> real option \<Rightarrow> tt" where
  "tt_clip a lo hi \<equiv> Apply (op_clip lo hi) [a]"
abbreviation tt_ones_like :: "tt \<Rightarrow> tt" where "tt_ones_like a \<equiv> Apply op_ones_like [a]"
abbreviation tt_ones :: "tt \<Rightarrow> tt" where "tt_ones n \<equiv> Apply op_ones [n]"
abbreviation tt_zeros :: "tt \<Rightarrow> tt \<Rightarrow> tt" where "tt_zeros n m \<equiv> Apply op_zeros [n, m]"
abbreviation tt_square :: "tt \<Rightarrow> tt" where "tt_square a \<equiv> Apply op_sqr [a]"
abbreviation tt_sqrt :: "tt \<Rightarrow> tt" where "tt_sqrt a \<equiv> Apply op_sqrt [a]"
abbreviation tt_exp :: "tt \<Rightarrow> tt" where "tt_exp a \<equiv> Apply op_exp [a]"
abbreviation tt_log :: "tt \<Rightarrow> tt" where "tt_log a \<equiv> Apply op_log [a]"
abbreviation tt_cos :: "tt \<Rightarrow> tt" where "tt_cos a \<equiv> Apply op_cos [a]"
abbreviation tt_reshape :: "tt \<Rightarrow> bool \<Rightarrow> tt" where "tt_reshape a col \<equiv> Apply (op_reshape col) [a]"
abbreviation tt_take_cols :: "tt \<Rightarrow> adims \<Rightarrow> tt" where "tt_take_cols a d \<equiv> Apply (op_take_cols d) [a]"

section \<open>Covariance functions (\<^verbatim>\<open>cov.py\<close>)\<close>

text \<open>
  A kernel object carries the fields of the base class \<^verbatim>\<open>Covariance\<close> (\<open>input_dim\<close>,
  \<open>active_dims\<close>) and those of its own class. A term of a combination is a kernel, a
  numpy array, a tensor variable or a Python number. User functions (\<^verbatim>\<open>warp_func\<close>,
  \<^verbatim>\<open>lengthscale_func\<close>) take the inputs and the optional extra arguments.
\<close>

datatype pyargs = NoArgs | OneArg tt | TupleArgs "tt list"

datatype pyfunc = Callable "tt \<Rightarrow> tt list \<Rightarrow> tt" | NotCallable

datatype cls = Add | Prod

datatype kernel =
    WhiteNoise (input_dim: int) (active_dims: adims) tt
  | ExpQuad (input_dim: int) (active_dims: adims) tt
  | RatQuad (input_dim: int) (active_dims: adims) tt tt
  | Matern52 (input_dim: int) (active_dims: adims) tt
  | Matern32 (input_dim: int) (active_dims: adims) tt
  | Exponential (input_dim: int) (active_dims: adims) tt
  | Cosine (input_dim: int) (active_dims: adims) tt
  | Linear (input_dim: int) (active_dims: adims) tt
  | Polynomial (input_dim: int) (active_dims: adims) tt tt tt
  | WarpedInput (input_dim: int) (active_dims: adims) kernel "tt \<Rightarrow> pyargs \<Rightarrow> tt" pyargs
  | Gibbs (input_dim: int) (active_dims: adims) "tt \<Rightarrow> pyargs \<Rightarrow> tt" pyargs
  | Combination cls (input_dim: int) (active_dims: adims) (factor_list: "factor list")
and factor = F_cov kernel | F_ndarray tensor | F_tensor tt | F_number real

subsection \<open>Construction\<close>

definition len_adims :: "adims \<Rightarrow> nat" where
  "len_adims a = (case a of Ints js \<Rightarrow> length js | Bools bs \<Rightarrow> length bs)"

text \<open>Python's \<^verbatim>\<open>sum\<close> over the list: \<^verbatim>\<open>True\<close> counts as one.\<close>

definition sum_adims :: "adims \<Rightarrow> int" where
  "sum_adims a =
     (case a of Ints js \<Rightarrow> sum_list js | Bools bs \<Rightarrow> int (length (filter (\<lambda>b. b) bs)))"

definition Covariance_init :: "int \<Rightarrow> adims option \<Rightarrow> error + int \<times> adims" where
  "Covariance_init idim adms =
     (case adms of
        None \<Rightarrow> Inr (idim, Ints [0..idim - 1])
      | Some a \<Rightarrow>
          if int (len_adims a) \<noteq> idim then Inl ValueError
          else Inr (idim, a))"

definition handle_args :: "(tt \<Rightarrow> tt list \<Rightarrow> tt) \<Rightarrow> tt \<Rightarrow> pyargs \<Rightarrow> tt" where
  "handle_args func x args =
     (case args of
        NoArgs \<Rightarrow> func x []
      | OneArg a \<Rightarrow> func x [a]
      | TupleArgs as \<Rightarrow> func x as)"

datatype pycov = IsCovariance kernel | NotCovariance

definition WarpedInput_init ::
  "int \<Rightarrow> pycov \<Rightarrow> pyfunc \<Rightarrow> pyargs \<Rightarrow> adims option \<Rightarrow> error + kernel" where
  "WarpedInput_init idim cov_func warp_func args adms =
     (case Covariance_init idim adms of
        Inl e \<Rightarrow> Inl e
      | Inr (d, a) \<Rightarrow>
          (case warp_func of
             NotCallable \<Rightarrow> Inl TypeError
           | Callable w \<Rightarrow>
               (case cov_func of
                  NotCovariance \<Rightarrow> Inl TypeError
                | IsCovariance k \<Rightarrow> Inr (WarpedInput d a k (handle_args w) args))))"

definition Gibbs_init :: "int \<Rightarrow> pyfunc \<Rightarrow> pyargs \<Rightarrow> adims option \<Rightarrow> error + kernel" where
  "Gibbs_init idim lengthscale_func args adms =
     (case Covariance_init idim adms of
        Inl e \<Rightarrow> Inl e
      | Inr (d, a) \<Rightarrow>
          if (case adms of
                Some ad \<Rightarrow> idim \<noteq> 1 \<or> sum_adims ad = 1
              | None \<Rightarrow> idim \<noteq> 1)
          then Inl NotImplementedError
          else (case lengthscale_func of
                  NotCallable \<Rightarrow> Inl TypeError
                | Callable l \<Rightarrow> Inr (Gibbs d a (handle_args l) args)))"

text \<open>
  \<^verbatim>\<open>Combination.__init__\<close>: the input dimension is the largest one among the kernels of
  the list (\<^verbatim>\<open>np.max\<close> of an empty list raises), and a term that is a combination of
  the same class contributes its own terms.
\<close>

fun factor_input_dims :: "factor list \<Rightarrow> int list" where
  "factor_input_dims [] = []"
| "factor_input_dims (F_cov k # fs) = input_dim k # factor_input_dims fs"
| "factor_input_dims (_ # fs) = factor_input_dims fs"

fun extend_factor :: "cls \<Rightarrow> factor \<Rightarrow> factor list" where
  "extend_factor c (F_cov (Combination c' d a fs)) =
     (if c' = c then fs else [F_cov (Combination c' d a fs)])"
| "extend_factor c f = [f]"

definition Combination_init :: "cls \<Rightarrow> factor list \<Rightarrow> error + kernel" where
  "Combination_init c fs =
     (case factor_input_dims fs of
        [] \<Rightarrow> Inl ValueError
      | d # ds \<Rightarrow>
          (case Covariance_init (fold max ds d) None of
             Inl e \<Rightarrow> Inl e
           | Inr (n, a) \<Rightarrow> Inr (Combination c n a (concat (map (extend_factor c) fs)))))"

text \<open>\<^verbatim>\<open>__add__\<close> and \<^verbatim>\<open>__mul__\<close> of a kernel: \<^verbatim>\<open>Add([self, other])\<close>, \<^verbatim>\<open>Prod([self, other])\<close>.\<close>

definition kernel_add :: "kernel \<Rightarrow> factor \<Rightarrow> error + kernel" where
  "kernel_add self other = Combination_init Add [F_cov self, other]"

definition kernel_mul :: "kernel \<Rightarrow> factor \<Rightarrow> error + kernel" where
  "kernel_mul self other = Combination_init Prod [F_cov self, other]"

subsection \<open>Evaluation\<close>

definition slice :: "adims \<Rightarrow> tt \<Rightarrow> tt option \<Rightarrow> tt \<times> tt option" where
  "slice a X Xs = (tt_take_cols X a, map_option (\<lambda>Z. tt_take_cols Z a) Xs)"

text \<open>\<^verbatim>\<open>Stationary.square_dist\<close>, \<^verbatim>\<open>euclidean_dist\<close> and \<^verbatim>\<open>diag\<close>.\<close>

definition square_dist :: "tt \<Rightarrow> tt \<Rightarrow> tt option \<Rightarrow> tt" where
  "square_dist lengthscales X0 Xs0 =
     (let X = tt_mul X0 (tt_true_div (num 1) lengthscales);
          X2 = tt_sum_axis (tt_square X) 1;
          sqd = (case Xs0 of
                   None \<Rightarrow>
                     tt_add (tt_mul (num (- 2)) (tt_dot X (tt_transpose X)))
                            (tt_add (tt_reshape X2 True) (tt_reshape X2 False))
                 | Some Xs1 \<Rightarrow>
                     let Xs = tt_mul Xs1 (tt_true_div (num 1) lengthscales);
                         Xs2 = tt_sum_axis (tt_square Xs) 1
                     in tt_add (tt_mul (num (- 2)) (tt_dot X (tt_transpose Xs)))
                               (tt_add (tt_reshape X2 True) (tt_reshape Xs2 False)))
      in tt_clip sqd 0 None)"

definition euclidean_dist :: "tt \<Rightarrow> tt \<Rightarrow> tt option \<Rightarrow> tt" where
  "euclidean_dist lengthscales X Xs =
     (let r2 = square_dist lengthscales X Xs in tt_sqrt (tt_add r2 (num (1 / 10 ^ 12))))"

definition Stationary_diag :: "tt \<Rightarrow> tt" where
  "Stationary_diag X = tt_ones (shape0 X)"

definition ExpQuad_full :: "adims \<Rightarrow> tt \<Rightarrow> tt \<Rightarrow> tt option \<Rightarrow> tt" where
  "ExpQuad_full a lengthscales X0 Xs0 =
     (let (X, Xs) = slice a X0 Xs0
      in tt_exp (tt_mul (num (- (1 / 2))) (square_dist lengthscales X Xs)))"

definition RatQuad_full :: "adims \<Rightarrow> tt \<Rightarrow> tt \<Rightarrow> tt \<Rightarrow> tt option \<Rightarrow> tt" where
  "RatQuad_full a lengthscales alpha X0 Xs0 =
     (let (X, Xs) = slice a X0 Xs0
      in tt_power
           (tt_add (num 1)
              (tt_mul (tt_mul (num (1 / 2)) (square_dist lengthscales X Xs))
                      (tt_true_div (num 1) alpha)))
           (tt_mul (num (- 1)) alpha))"

definition Matern52_full :: "adims \<Rightarrow> tt \<Rightarrow> tt \<Rightarrow> tt option \<Rightarrow> tt" where
  "Matern52_full a lengthscales X0 Xs0 =
     (let (X, Xs) = slice a X0 Xs0;
          r = euclidean_dist lengthscales X Xs
      in tt_mul
           (tt_add (tt_add (num 1) (tt_mul (num (sqrt 5)) r))
                   (tt_mul (num (5 / 3)) (tt_square r)))
           (tt_exp (tt_mul (num (- 1 * sqrt 5)) r)))"

definition Matern32_full :: "adims \<Rightarrow> tt \<Rightarrow> tt \<Rightarrow> tt option \<Rightarrow> tt" where
  "Matern32_full a lengthscales X0 Xs0 =
     (let (X, Xs) = slice a X0 Xs0;
          r = euclidean_dist lengthscales X Xs
      in tt_mul (tt_add (num 1) (tt_mul (num (sqrt 3)) r))
                (tt_exp (tt_mul (num (- sqrt 3)) r)))"

definition Exponential_full :: "adims \<Rightarrow> tt \<Rightarrow> tt \<Rightarrow> tt option \<Rightarrow> tt" where
  "Exponential_full a lengthscales X0 Xs0 =
     (let (X, Xs) = slice a X0 Xs0
      in tt_exp (tt_mul (num (- (1 / 2))) (euclidean_dist lengthscales X Xs)))"

definition Cosine_full :: "adims \<Rightarrow> tt \<Rightarrow> tt \<Rightarrow> tt option \<Rightarrow> tt" where
  "Cosine_full a lengthscales X0 Xs0 =
     (let (X, Xs) = slice a X0 Xs0
      in tt_cos (tt_mul (num pi) (euclidean_dist lengthscales X Xs)))"

text \<open>\<^verbatim>\<open>WhiteNoise\<close>, \<^verbatim>\<open>Linear\<close> and \<^verbatim>\<open>Polynomial\<close>.\<close>

definition WhiteNoise_diag :: "tt \<Rightarrow> tt \<Rightarrow> tt" where
  "WhiteNoise_diag sigma X = tt_mul (tt_square sigma) (tt_ones (shape0 X))"

definition WhiteNoise_full :: "tt \<Rightarrow> tt \<Rightarrow> tt option \<Rightarrow> tt" where
  "WhiteNoise_full sigma X Xs0 =
     (case Xs0 of
        None \<Rightarrow> tt_mul (tt_square sigma) (tt_eye (shape0 X))
      | Some Xs \<Rightarrow> tt_zeros (shape0 X) (shape0 Xs))"

definition Linear_common :: "adims \<Rightarrow> tt \<Rightarrow> tt \<Rightarrow> tt option \<Rightarrow> tt \<times> tt \<times> tt option" where
  "Linear_common a c X0 Xs0 =
     (let (X, Xs) = slice a X0 Xs0; Xc = tt_sub X c in (X, Xc, Xs))"

definition Linear_full :: "adims \<Rightarrow> tt \<Rightarrow> tt \<Rightarrow> tt option \<Rightarrow> tt" where
  "Linear_full a c X0 Xs0 =
     (let (X, Xc, Xs1) = Linear_common a c X0 Xs0
      in case Xs1 of
           None \<Rightarrow> tt_dot Xc (tt_transpose Xc)
         | Some Xs \<Rightarrow> let Xsc = tt_sub Xs c in tt_dot Xc (tt_transpose Xsc))"

definition Linear_diag :: "adims \<Rightarrow> tt \<Rightarrow> tt \<Rightarrow> tt" where
  "Linear_diag a c X0 =
     (let (X, Xc, _) = Linear_common a c X0 None in tt_sum_axis (tt_square Xc) 1)"

definition Polynomial_full :: "adims \<Rightarrow> tt \<Rightarrow> tt \<Rightarrow> tt \<Rightarrow> tt \<Rightarrow> tt option \<Rightarrow> tt" where
  "Polynomial_full a c d offset X Xs =
     (let linear = Linear_full a c X Xs in tt_power (tt_add linear offset) d)"

definition Polynomial_diag :: "adims \<Rightarrow> tt \<Rightarrow> tt \<Rightarrow> tt \<Rightarrow> tt \<Rightarrow> tt" where
  "Polynomial_diag a c d offset X =
     (let linear = Linear_diag a c X in tt_power (tt_add linear offset) d)"

text \<open>
  \<^verbatim>\<open>Gibbs\<close>: its own \<^verbatim>\<open>square_dist\<close> (which uses \<^verbatim>\<open>Xs2\<close> in both reshaped terms when
  \<^verbatim>\<open>Xs\<close> is given, as the source does), \<^verbatim>\<open>full\<close> and \<^verbatim>\<open>diag\<close>.
\<close>

definition Gibbs_square_dist :: "tt \<Rightarrow> tt option \<Rightarrow> tt" where
  "Gibbs_square_dist X Xs0 =
     (let X2 = tt_sum_axis (tt_square X) 1;
          sqd = (case Xs0 of
                   None \<Rightarrow>
                     tt_add (tt_mul (num (- 2)) (tt_dot X (tt_transpose X)))
                            (tt_add (tt_reshape X2 True) (tt_reshape X2 False))
                 | Some Xs \<Rightarrow>
                     let Xs2 = tt_sum_axis (tt_square Xs) 1
                     in tt_add (tt_mul (num (- 2)) (tt_dot X (tt_transpose Xs)))
                               (tt_add (tt_reshape Xs2 True) (tt_reshape Xs2 False)))
      in tt_clip sqd 0 None)"

definition Gibbs_full :: "adims \<Rightarrow> (tt \<Rightarrow> pyargs \<Rightarrow> tt) \<Rightarrow> pyargs \<Rightarrow> tt \<Rightarrow> tt option \<Rightarrow> tt" where
  "Gibbs_full a lfunc args X0 Xs0 =
     (let (X, Xs1) = slice a X0 Xs0;
          rx = lfunc X args;
          rx2 = tt_reshape (tt_square rx) True;
          (r2, rz) = (case Xs1 of
                        None \<Rightarrow> (Gibbs_square_dist X (Some X), lfunc X args)
                      | Some Xs \<Rightarrow> (Gibbs_square_dist X (Some Xs), lfunc Xs args));
          rz2 = tt_reshape (tt_square rz) False
      in tt_mul
           (tt_sqrt (tt_true_div (tt_mul (num 2) (tt_dot rx (tt_transpose rz)))
                                 (tt_add rx2 rz2)))
           (tt_exp (tt_true_div (tt_mul (num (- 1)) r2) (tt_add rx2 rz2))))"

definition Gibbs_diag :: "tt \<Rightarrow> tt" where
  "Gibbs_diag X = tt_ones (shape0 X)"

text \<open>
  Python's \<^verbatim>\<open>reduce\<close> without an initial value: a left fold from the first element; it
  raises on the empty list.
\<close>

fun reduce :: "('a \<Rightarrow> 'a \<Rightarrow> 'a) \<Rightarrow> 'a list \<Rightarrow> 'a option" where
  "reduce f [] = None"
| "reduce f (x # xs) = Some (foldl f x xs)"

definition np_diag :: "tensor \<Rightarrow> tensor" where
  "np_diag t = (case t of Mat M \<Rightarrow> Vec (diagonal M) | _ \<Rightarrow> t)"

text \<open>
  \<^verbatim>\<open>Covariance.__call__\<close> dispatches on \<^verbatim>\<open>diag\<close>; \<^verbatim>\<open>Add\<close> and \<^verbatim>\<open>Prod\<close> override it and
  reduce the list that \<^verbatim>\<open>merge_factors\<close> returns. \<open>merge_factor\<close> is the body of the loop of
  \<^verbatim>\<open>merge_factors\<close> for one term.
\<close>

fun call :: "kernel \<Rightarrow> tt \<Rightarrow> tt option \<Rightarrow> bool \<Rightarrow> tt option"
and merge_factor :: "factor \<Rightarrow> tt \<Rightarrow> tt option \<Rightarrow> bool \<Rightarrow> tt option"
and merge_factors :: "factor list \<Rightarrow> tt \<Rightarrow> tt option \<Rightarrow> bool \<Rightarrow> tt list option"
where
  "call (WhiteNoise d a sigma) X Xs diag =
     Some (if diag then WhiteNoise_diag sigma X else WhiteNoise_full sigma X Xs)"
| "call (ExpQuad d a ls) X Xs diag =
     Some (if diag then Stationary_diag X else ExpQuad_full a ls X Xs)"
| "call (RatQuad d a ls alpha) X Xs diag =
     Some (if diag then Stationary_diag X else RatQuad_full a ls alpha X Xs)"
| "call (Matern52 d a ls) X Xs diag =
     Some (if diag then Stationary_diag X else Matern52_full a ls X Xs)"
| "call (Matern32 d a ls) X Xs diag =
     Some (if diag then Stationary_diag X else Matern32_full a ls X Xs)"
| "call (Exponential d a ls) X Xs diag =
     Some (if diag then Stationary_diag X else Exponential_full a ls X Xs)"
| "call (Cosine d a ls) X Xs diag =
     Some (if diag then Stationary_diag X else Cosine_full a ls X Xs)"
| "call (Linear d a c) X Xs diag =
     Some (if diag then Linear_diag a c X else Linear_full a c X Xs)"
| "call (Polynomial d a c dg offset) X Xs diag =
     Some (if diag then Polynomial_diag a c dg offset X else Polynomial_full a c dg offset X Xs)"
| "call (WarpedInput d a cov_func w args) X0 Xs0 diag =
     (if diag then (let (X, _) = slice a X0 None in call cov_func (w X args) None True)
      else (let (X, Xs1) = slice a X0 Xs0
            in case Xs1 of
                 None \<Rightarrow> call cov_func (w X args) None False
               | Some Xs \<Rightarrow> call cov_func (w X args) (Some (w Xs args)) False))"
| "call (Gibbs d a lfunc args) X Xs diag =
     Some (if diag then Gibbs_diag X else Gibbs_full a lfunc args X Xs)"
| "call (Combination c d a fs) X Xs diag =
     (case merge_factors fs X Xs diag of
        None \<Rightarrow> None
      | Some gs \<Rightarrow> reduce (case c of Add \<Rightarrow> tt_add | Prod \<Rightarrow> tt_mul) gs)"
| "merge_factor (F_cov k) X Xs diag = call k X Xs diag"
| "merge_factor (F_ndarray t) X Xs diag =
     Some (if ndim t = 2 \<and> diag then T_const (np_diag t) else T_const t)"
| "merge_factor (F_tensor g) X Xs diag =
     Some (if tt_ndim g = 2 \<and> diag then tt_diag g else g)"
| "merge_factor (F_number r) X Xs diag = Some (num r)"
| "merge_factors [] X Xs diag = Some []"
| "merge_factors (f # fs) X Xs diag =
     (case merge_factor f X Xs diag of
        None \<Rightarrow> None
      | Some g \<Rightarrow> map_option ((#) g) (merge_factors fs X Xs diag))"

section \<open>Gaussian processes (\<^verbatim>\<open>gp.py\<close>)\<close>

definition stabilize :: "tt \<Rightarrow> tt" where
  "stabilize K =
     (let n = shape0 K
      in tt_add K (tt_mul (tt_mul (num (1 / 10 ^ 6)) (tt_true_div (tt_trace K) n)) (tt_eye n)))"

text \<open>
  The three classes share the fields \<^verbatim>\<open>X\<close>, \<^verbatim>\<open>nf\<close>, \<^verbatim>\<open>K\<close>, \<^verbatim>\<open>m\<close> and \<^verbatim>\<open>mean\<close>. The
  mean function is a callable of the module \<^verbatim>\<open>mean\<close>; the noise covariance is a callable
  too (a kernel, or the function that \<^verbatim>\<open>GP\<close> builds from \<^verbatim>\<open>sigma\<close>).
\<close>

record GPBase =
  gp_X :: tt
  gp_nf :: tt
  gp_K :: kernel
  gp_m :: "tt \<Rightarrow> tt"
  gp_mean :: tt

record GPFullNonConjugate = GPBase +
  gp_name :: string

record GPFullConjugate = GPBase +
  gp_Kn :: "tt \<Rightarrow> tt option"

record GPSparseConjugate = GPBase +
  gp_sigma2 :: tt
  gp_approx :: string
  gp_Xu :: tt
  gp_nu :: tt

definition GPFullNonConjugate_init ::
  "string \<Rightarrow> tt \<Rightarrow> (tt \<Rightarrow> tt) \<Rightarrow> kernel \<Rightarrow> GPFullNonConjugate" where
  "GPFullNonConjugate_init name X mean_func cov_func =
     \<lparr>gp_X = X, gp_nf = shape0 X, gp_K = cov_func, gp_m = mean_func,
      gp_mean = mean_func X, gp_name = name\<rparr>"

definition GPFullConjugate_init ::
  "tt \<Rightarrow> (tt \<Rightarrow> tt) \<Rightarrow> kernel \<Rightarrow> (tt \<Rightarrow> tt option) \<Rightarrow> GPFullConjugate" where
  "GPFullConjugate_init X mean_func cov_func cov_func_noise =
     \<lparr>gp_X = X, gp_nf = shape0 X, gp_K = cov_func, gp_m = mean_func,
      gp_mean = mean_func X, gp_Kn = cov_func_noise\<rparr>"

definition GPSparseConjugate_init ::
  "tt \<Rightarrow> (tt \<Rightarrow> tt) \<Rightarrow> kernel \<Rightarrow> tt \<Rightarrow> string \<Rightarrow> tt \<Rightarrow> GPSparseConjugate" where
  "GPSparseConjugate_init X mean_func cov_func sigma approx inducing_points =
     \<lparr>gp_X = X, gp_nf = shape0 X, gp_K = cov_func, gp_m = mean_func,
      gp_mean = mean_func X, gp_sigma2 = tt_square sigma, gp_approx = approx,
      gp_Xu = inducing_points, gp_nu = shape0 inducing_points\<rparr>"

subsection \<open>\<^verbatim>\<open>GPBase\<close> and \<^verbatim>\<open>GPFullNonConjugate\<close>\<close>

definition GPBase_logp :: "tt \<Rightarrow> tt" where
  "GPBase_logp y = num 0"

definition GPFullNonConjugate_prior :: "GPFullNonConjugate \<Rightarrow> (tt \<times> tt) option" where
  "GPFullNonConjugate_prior self =
     (let mean = gp_m self (gp_X self)
      in case call (gp_K self) (gp_X self) None False of
           None \<Rightarrow> None
         | Some cov \<Rightarrow> Some (mean, stabilize cov))"

definition GPFullNonConjugate_conditional ::
  "GPFullNonConjugate \<Rightarrow> tt \<Rightarrow> tt \<Rightarrow> (tt \<times> tt) option" where
  "GPFullNonConjugate_conditional self Xs v = do {
     Kxx \<leftarrow> call (gp_K self) (gp_X self) None False;
     Kxs \<leftarrow> call (gp_K self) (gp_X self) (Some Xs) False;
     Kss \<leftarrow> call (gp_K self) Xs None False;
     let L = cholesky (stabilize Kxx);
     let A = solve_lower L Kxs;
     let cov = tt_sub Kss (tt_dot (tt_transpose A) A);
     let mean = tt_add (gp_m self Xs) (tt_dot (tt_transpose A) v);
     Some (mean, stabilize cov)
   }"

text \<open>
  The property \<^verbatim>\<open>RV\<close> registers the rotated variable, a standard normal vector of length
  \<^verbatim>\<open>nf\<close>, and the deterministic variable \<^verbatim>\<open>dot(L, v)\<close>, whose \<^verbatim>\<open>distribution\<close> is the GP
  object itself.
\<close>

datatype rv_dist = Normal real real tt

record RV_result =
  free_RV :: "string \<times> rv_dist"
  deterministic :: "string \<times> tt"
  distribution :: GPFullNonConjugate

definition RV :: "GPFullNonConjugate \<Rightarrow> RV_result option" where
  "RV self =
     (let v_name = gp_name self @ ''_rotated_'';
          v = T_var v_name 1
      in case call (gp_K self) (gp_X self) None False of
           None \<Rightarrow> None
         | Some Kxx \<Rightarrow>
             let L = cholesky (stabilize Kxx)
             in Some \<lparr>free_RV = (v_name, Normal 0 1 (gp_nf self)),
                      deterministic = (gp_name self, tt_dot L v),
                      distribution = self\<rparr>)"

subsection \<open>\<^verbatim>\<open>GPFullConjugate\<close>\<close>

definition GPFullConjugate_prior :: "GPFullConjugate \<Rightarrow> bool \<Rightarrow> (tt \<times> tt) option" where
  "GPFullConjugate_prior self obs_noise =
     (let mean = gp_m self (gp_X self)
      in if obs_noise
         then do {
           Kxx \<leftarrow> call (gp_K self) (gp_X self) None False;
           Knx \<leftarrow> gp_Kn self (gp_X self);
           Some (mean, stabilize (tt_add Kxx Knx)) }
         else do {
           Kxx \<leftarrow> call (gp_K self) (gp_X self) None False;
           Some (mean, stabilize Kxx) })"

definition GPFullConjugate_conditional ::
  "GPFullConjugate \<Rightarrow> tt \<Rightarrow> tt \<Rightarrow> bool \<Rightarrow> (tt \<times> tt) option" where
  "GPFullConjugate_conditional self Xs y obs_noise = do {
     Kxx \<leftarrow> call (gp_K self) (gp_X self) None False;
     Knx \<leftarrow> gp_Kn self (gp_X self);
     Kxs \<leftarrow> call (gp_K self) (gp_X self) (Some Xs) False;
     Kss \<leftarrow> call (gp_K self) Xs None False;
     let r = tt_sub y (gp_m self (gp_X self));
     let L = cholesky (tt_add (stabilize Kxx) Knx);
     let A = solve_lower L Kxs;
     let V = solve_lower L r;
     let mean = tt_add (tt_dot (tt_transpose A) V) (gp_m self Xs);
     if obs_noise
     then do {
       Kns \<leftarrow> gp_Kn self Xs;
       Some (mean, stabilize (tt_sub (tt_add Kns Kss) (tt_dot (tt_transpose A) A))) }
     else Some (mean, stabilize (tt_sub Kss (tt_dot (tt_transpose A) A)))
   }"

text \<open>
  Modelled from the spec: \<^verbatim>\<open>MvNormal.dist(mu, chol).logp\<close> belongs to the distributions
  module, which is not among the source files; section 4.3 describes it as the exact
  multivariate-normal log density through the Cholesky factor of the covariance.
\<close>

definition MvNormal_logp :: "tt \<Rightarrow> tt \<Rightarrow> tt \<Rightarrow> tt" where
  "MvNormal_logp mu chol y =
     (let z = solve_lower chol (tt_sub y mu)
      in tt_sub
           (tt_mul (num (- (1 / 2)))
              (tt_add (tt_mul (shape0 y) (tt_log (num (2 * pi)))) (tt_dot z z)))
           (tt_sum (tt_log (tt_diag chol))))"

definition GPFullConjugate_logp :: "GPFullConjugate \<Rightarrow> tt \<Rightarrow> tt option" where
  "GPFullConjugate_logp self y = do {
     let mean = gp_m self (gp_X self);
     Kxx \<leftarrow> call (gp_K self) (gp_X self) None False;
     Knx \<leftarrow> gp_Kn self (gp_X self);
     let L = cholesky (tt_add (stabilize Kxx) Knx);
     Some (MvNormal_logp mean L y)
   }"

subsection \<open>\<^verbatim>\<open>GPSparseConjugate\<close>\<close>

definition GPSparseConjugate_prior :: "GPSparseConjugate \<Rightarrow> bool \<Rightarrow> (tt \<times> tt) option" where
  "GPSparseConjugate_prior self obs_noise = do {
     Kuu \<leftarrow> call (gp_K self) (gp_Xu self) None False;
     Kuf \<leftarrow> call (gp_K self) (gp_Xu self) (Some (gp_X self)) False;
     let Luu = cholesky (stabilize Kuu);
     let A = solve_lower Luu Kuf;
     Kffd \<leftarrow> call (gp_K self) (gp_X self) None True;
     let Qff = tt_dot (tt_transpose A) A;
     let mean = gp_m self (gp_X self);
     let cov = (if obs_noise
                then tt_add (tt_sub Qff (tt_sub (tt_diag Qff) Kffd))
                            (tt_mul (gp_sigma2 self) (tt_eye (gp_nf self)))
                else tt_sub Qff (tt_sub (tt_diag Qff) Kffd));
     Some (mean, stabilize cov)
   }"

definition GPSparseConjugate_conditional ::
  "GPSparseConjugate \<Rightarrow> tt \<Rightarrow> tt \<Rightarrow> bool \<Rightarrow> (tt \<times> tt) option" where
  "GPSparseConjugate_conditional self Xs y obs_noise = do {
     Kuu \<leftarrow> call (gp_K self) (gp_Xu self) None False;
     Kuf \<leftarrow> call (gp_K self) (gp_Xu self) (Some (gp_X self)) False;
     let Luu = cholesky (stabilize Kuu);
     let A = solve_lower Luu Kuf;
     let Qffd = tt_sum_axis (tt_mul A A) 0;
     Lamd \<leftarrow>
       (if gp_approx self = ''FITC'' then do {
          Kffd \<leftarrow> call (gp_K self) (gp_X self) None True;
          Some (tt_add (tt_clip (tt_sub Kffd Qffd) 0 None) (gp_sigma2 self)) }
        else if gp_approx self = ''VFE'' then
          Some (tt_mul (tt_ones_like Qffd) (gp_sigma2 self))
        else None);
     let A_l = tt_true_div A Lamd;
     let L_B = cholesky (tt_add (tt_eye (gp_nu self)) (tt_dot A_l (tt_transpose A)));
     let r = tt_sub y (gp_m self (gp_X self));
     let r_l = tt_true_div r Lamd;
     let c = solve_lower L_B (tt_dot A r_l);
     Kus \<leftarrow> call (gp_K self) (gp_Xu self) (Some Xs) False;
     let As = solve_lower Luu Kus;
     let mean = tt_dot (tt_transpose As) (solve_upper (tt_transpose L_B) c);
     let C = solve_lower L_B As;
     Kss \<leftarrow> call (gp_K self) Xs (Some Xs) False;
     let cov = (if obs_noise
                then tt_add (tt_add (tt_sub Kss (tt_dot (tt_transpose As) As))
                                    (tt_dot (tt_transpose C) C))
                            (tt_mul (gp_sigma2 self) (tt_eye (shape0 Xs)))
                else tt_add (tt_sub Kss (tt_dot (tt_transpose As) As))
                            (tt_dot (tt_transpose C) C));
     Some (mean, stabilize cov)
   }"

definition GPSparseConjugate_logp :: "GPSparseConjugate \<Rightarrow> tt \<Rightarrow> tt option" where
  "GPSparseConjugate_logp self y = do {
     Kuu \<leftarrow> call (gp_K self) (gp_Xu self) (Some (gp_Xu self)) False;
     Kuf \<leftarrow> call (gp_K self) (gp_Xu self) (Some (gp_X self)) False;
     let Luu = cholesky (stabilize Kuu);
     let A = solve_lower Luu Kuf;
     let Qffd = tt_sum_axis (tt_mul A A) 0;
     (Lamd, trace) \<leftarrow>
       (if gp_approx self = ''FITC'' then do {
          Kffd \<leftarrow> call (gp_K self) (gp_X self) None True;
          Some (tt_add (tt_clip (tt_sub Kffd Qffd) 0 None) (gp_sigma2 self), num 0) }
        else if gp_approx self = ''VFE'' then do {
          Kffd \<leftarrow> call (gp_K self) (gp_X self) None True;
          Some (tt_mul (tt_ones_like Qffd) (gp_sigma2 self),
                tt_mul (tt_true_div (num 1) (tt_mul (num 2) (gp_sigma2 self)))
                       (tt_sub (tt_sum Kffd) (tt_sum (tt_sum_axis (tt_mul A A) 0)))) }
        else None);
     let A_l = tt_true_div A Lamd;
     let L_B = cholesky (tt_add (tt_eye (gp_nu self)) (tt_dot A_l (tt_transpose A)));
     let r = tt_sub y (gp_m self (gp_X self));
     let r_l = tt_true_div r Lamd;
     let c = solve_lower L_B (tt_dot A r_l);
     let constant = tt_mul (tt_mul (num (1 / 2)) (gp_nf self)) (tt_log (num (2 * pi)));
     let logdet = tt_add (tt_mul (num (1 / 2)) (tt_sum (tt_log Lamd)))
                         (tt_sum (tt_log (tt_diag L_B)));
     let quadratic = tt_mul (num (1 / 2)) (tt_sub (tt_dot r r_l) (tt_dot c c));
     Some (tt_mul (num (- 1)) (tt_add (tt_add (tt_add constant logdet) quadratic) trace))
   }"

subsection \<open>The constructor \<^verbatim>\<open>GP\<close>\<close>

text \<open>
  The arguments that may be \<^verbatim>\<open>None\<close> are options. \<^verbatim>\<open>mean_func\<close> and \<^verbatim>\<open>cov_func\<close> may be
  objects of the wrong class. The result is the list of messages logged and either the
  exception raised or the object built. \<open>ctx\<close> is the model on the context stack;
  \<open>init_inducing\<close> stands for the k-means initialisation of lines 91 to 99, a computation
  of numpy and scipy on the training inputs.
\<close>

datatype pymean = IsMean "tt \<Rightarrow> tt" | NotMean

datatype gp_object =
    NonConjugate RV_result
  | FullConjugate GPFullConjugate
  | SparseConjugate GPSparseConjugate

definition modelcontext :: "'m option \<Rightarrow> 'm option \<Rightarrow> error + 'm" where
  "modelcontext ctx model =
     (case model of
        Some m \<Rightarrow> Inr m
      | None \<Rightarrow> (case ctx of Some m \<Rightarrow> Inr m | None \<Rightarrow> Inl TypeError))"

text \<open>
  Modelled from the spec: the mean function \<^verbatim>\<open>Zero\<close> of the module \<^verbatim>\<open>mean\<close>, a vector
  of zeros with one entry for each row of the inputs.
\<close>

definition Zero :: "tt \<Rightarrow> tt" where
  "Zero X = Apply op_zeros [shape0 X]"

text \<open>\<^verbatim>\<open>str.upper\<close> on ASCII text.\<close>

definition upper :: "string \<Rightarrow> string" where
  "upper s =
     map (\<lambda>c. let n = (of_char c :: nat) in if 97 \<le> n \<and> n \<le> 122 then char_of (n - 32) else c) s"

text \<open>
  Lines 89 to 115, after \<^verbatim>\<open>approx = approx.upper()\<close>. The variable \<^verbatim>\<open>approx\<close> is tested
  against \<^verbatim>\<open>None\<close> again there, so it is an option here too.
\<close>

definition GP_approximation ::
  "(tt \<Rightarrow> int \<Rightarrow> tt) \<Rightarrow> tt \<Rightarrow> (tt \<Rightarrow> tt) \<Rightarrow> kernel \<Rightarrow> tt option \<Rightarrow> string option \<Rightarrow>
   int option \<Rightarrow> tt option \<Rightarrow> string list \<times> (error + gp_object)" where
  "GP_approximation init_inducing X mean_func cov_func sigma approx n_inducing inducing_points0 =
     (let inducing_points =
            (case (inducing_points0, n_inducing) of
               (None, Some n) \<Rightarrow> Some (init_inducing X n)
             | _ \<Rightarrow> inducing_points0);
          (logged, approx1) =
            (case approx of
               None \<Rightarrow> ([''Using VFE approximation''], ''VFE'')
             | Some a \<Rightarrow> ([], a))
      in if approx1 \<notin> {''VFE'', ''FITC''} then (logged, Inl GPValueError)
         else if inducing_points = None \<and> n_inducing = None then (logged, Inl GPValueError)
         else (case inducing_points of
                 None \<Rightarrow> (logged, Inl TypeError)
               | Some Xu \<Rightarrow>
                   (case sigma of
                      None \<Rightarrow> (logged, Inl TypeError)
                    | Some sg \<Rightarrow>
                        (logged, Inr (SparseConjugate
                           (GPSparseConjugate_init X mean_func cov_func sg approx1 Xu))))))"

definition GP ::
  "'m option \<Rightarrow> (tt \<Rightarrow> int \<Rightarrow> tt) \<Rightarrow> string \<Rightarrow> tt \<Rightarrow> pymean option \<Rightarrow> pycov option \<Rightarrow>
   (tt \<Rightarrow> tt option) option \<Rightarrow> tt option \<Rightarrow> string option \<Rightarrow> int option \<Rightarrow> tt option \<Rightarrow>
   tt option \<Rightarrow> 'm option \<Rightarrow> string list \<times> (error + gp_object)" where
  "GP ctx init_inducing name X mean_func0 cov_func0 cov_func_noise0 sigma approx n_inducing
      inducing_points observed model =
     (case modelcontext ctx model of
        Inl e \<Rightarrow> ([], Inl e)
      | Inr _ \<Rightarrow>
     (case (case mean_func0 of
              None \<Rightarrow> Inr Zero
            | Some NotMean \<Rightarrow> Inl GPValueError
            | Some (IsMean f) \<Rightarrow> Inr f) of
        Inl e \<Rightarrow> ([], Inl e)
      | Inr mean_func \<Rightarrow>
     (case cov_func0 of
        None \<Rightarrow> ([], Inl GPValueError)
      | Some NotCovariance \<Rightarrow> ([], Inl GPValueError)
      | Some (IsCovariance cov_func) \<Rightarrow>
     (case observed of
        None \<Rightarrow>
          (case RV (GPFullNonConjugate_init name X mean_func cov_func) of
             None \<Rightarrow> ([], Inl TypeError)
           | Some f \<Rightarrow> ([], Inr (NonConjugate f)))
      | Some _ \<Rightarrow>
          if approx = None \<and> n_inducing = None \<and> inducing_points = None
          then (case (sigma, cov_func_noise0) of
                  (None, None) \<Rightarrow> ([], Inl GPValueError)
                | (Some sg, None) \<Rightarrow>
                    ([], Inr (FullConjugate (GPFullConjugate_init X mean_func cov_func
                       (\<lambda>X. Some (tt_mul (tt_square sg) (tt_eye (shape0 X)))))))
                | (_, Some cov_func_noise) \<Rightarrow>
                    ([], Inr (FullConjugate
                       (GPFullConjugate_init X mean_func cov_func cov_func_noise))))
          else (case approx of
                  None \<Rightarrow> ([], Inl AttributeError)
                | Some a \<Rightarrow>
                    GP_approximation init_inducing X mean_func cov_func sigma
                      (Some (upper a)) n_inducing inducing_points)))))"

text \<open>The method \<^verbatim>\<open>logp\<close> of the object a variable carries as its \<^verbatim>\<open>distribution\<close>.\<close>

definition logp_nonconj :: "GPFullNonConjugate \<Rightarrow> tt \<Rightarrow> tt option" where
  "logp_nonconj self y = Some (GPBase_logp y)"

fun logp :: "gp_object \<Rightarrow> tt \<Rightarrow> tt option" where
  "logp (NonConjugate f) y = logp_nonconj (distribution f) y"
| "logp (FullConjugate self) y = GPFullConjugate_logp self y"
| "logp (SparseConjugate self) y = GPSparseConjugate_logp self y"

subsection \<open>\<^verbatim>\<open>sample_gp\<close>\<close>




subsection \<open>The arguments of the Cholesky decompositions in a graph\<close>

fun cholesky_args :: "tt \<Rightarrow> tt list" where
  "cholesky_args (T_const _) = []"
| "cholesky_args (T_var _ _) = []"
| "cholesky_args (Apply f ins) =
     (if f = op_cholesky then ins else []) @ concat (map cholesky_args ins)"

definition stabilized :: "tt \<Rightarrow> bool" where
  "stabilized g = (case g of Apply _ (K # _) \<Rightarrow> g = stabilize K | _ \<Rightarrow> False)"

section \<open>Auxiliary notions for the statements\<close>

text \<open>The value of a kernel call: the graph it builds, evaluated.\<close>

definition evaluate_call ::
  "(string \<Rightarrow> tensor option) \<Rightarrow> kernel \<Rightarrow> tt \<Rightarrow> tt option \<Rightarrow> bool \<Rightarrow> tensor option" where
  "evaluate_call \<rho> k X Xs diag =
     (case call k X Xs diag of None \<Rightarrow> None | Some g \<Rightarrow> evaluate \<rho> g)"

text \<open>
  The terms a kernel contributes to a combination of class \<open>c\<close>, and the test
  \<^verbatim>\<open>isinstance(k, c)\<close> for the two combination classes.
\<close>

definition terms_of :: "cls \<Rightarrow> kernel \<Rightarrow> factor list" where
  "terms_of c k = extend_factor c (F_cov k)"

definition is_cls :: "cls \<Rightarrow> kernel \<Rightarrow> bool" where
  "is_cls c k = (case k of Combination c' _ _ _ \<Rightarrow> c' = c | _ \<Rightarrow> False)"

text \<open>
  The value of a combination: \<open>term_value\<close> is what one term of the list contributes
  (the evaluation of the graph that \<^verbatim>\<open>merge_factors\<close> puts in the list), \<open>combine2\<close> is the
  binary operator of the class on evaluated terms, \<open>cls_fun\<close> the operator on numbers.
\<close>

definition cls_op :: "cls \<Rightarrow> op" where
  "cls_op c = (case c of Add \<Rightarrow> op_add | Prod \<Rightarrow> op_mul)"

definition term_value ::
  "(string \<Rightarrow> tensor option) \<Rightarrow> tt \<Rightarrow> tt option \<Rightarrow> bool \<Rightarrow> factor \<Rightarrow> tensor option" where
  "term_value \<rho> X Xs diag f =
     (case merge_factor f X Xs diag of None \<Rightarrow> None | Some g \<Rightarrow> evaluate \<rho> g)"

definition combine2 :: "cls \<Rightarrow> tensor option \<Rightarrow> tensor option \<Rightarrow> tensor option" where
  "combine2 c u v =
     (case (u, v) of (Some s, Some t) \<Rightarrow> perform2 (cls_op c) s t | _ \<Rightarrow> None)"

definition cls_fun :: "cls \<Rightarrow> real \<Rightarrow> real \<Rightarrow> real" where
  "cls_fun c = (case c of Add \<Rightarrow> (+) | Prod \<Rightarrow> (*))"

text \<open>
  Two terms that differ at most outside the diagonal: two-dimensional arrays with the same
  diagonal, two-dimensional tensors whose diagonals evaluate alike, kernels with the same
  diagonal evaluation.
\<close>

fun same_diagonal ::
  "(string \<Rightarrow> tensor option) \<Rightarrow> tt \<Rightarrow> tt option \<Rightarrow> factor \<Rightarrow> factor \<Rightarrow> bool" where
  "same_diagonal \<rho> X Xs (F_ndarray s) (F_ndarray t) =
     (s = t \<or> ndim s = 2 \<and> ndim t = 2 \<and> np_diag s = np_diag t)"
| "same_diagonal \<rho> X Xs (F_tensor g) (F_tensor h) =
     (g = h \<or> tt_ndim g = 2 \<and> tt_ndim h = 2 \<and>
        evaluate \<rho> (tt_diag g) = evaluate \<rho> (tt_diag h))"
| "same_diagonal \<rho> X Xs (F_cov k) (F_cov k') =
     (evaluate_call \<rho> k X Xs True = evaluate_call \<rho> k' X Xs True)"
| "same_diagonal \<rho> X Xs f f' = (f = f')"

text \<open>
  The posterior of the full-conjugate variant as the specification words it: the same
  factor \<open>L\<close> and solves, mean \<open>mean(Xs) + A\<^sup>T V\<close>, covariance \<open>K(Xs, Xs) - A\<^sup>T A\<close>, plus the
  noise covariance at \<open>Xs\<close> on request.
\<close>

definition claimed_posterior :: "GPFullConjugate \<Rightarrow> tt \<Rightarrow> tt \<Rightarrow> bool \<Rightarrow> (tt \<times> tt) option" where
  "claimed_posterior self Xs y obs_noise = do {
     Kxx \<leftarrow> call (gp_K self) (gp_X self) None False;
     Knx \<leftarrow> gp_Kn self (gp_X self);
     Kxs \<leftarrow> call (gp_K self) (gp_X self) (Some Xs) False;
     Kss \<leftarrow> call (gp_K self) Xs None False;
     let L = cholesky (tt_add (stabilize Kxx) Knx);
     let A = solve_lower L Kxs;
     let V = solve_lower L (tt_sub y (gp_m self (gp_X self)));
     let mean = tt_add (gp_m self Xs) (tt_dot (tt_transpose A) V);
     let cov = tt_sub Kss (tt_dot (tt_transpose A) A);
     if obs_noise
     then do { Kns \<leftarrow> gp_Kn self Xs; Some (mean, tt_add cov Kns) }
     else Some (mean, cov)
   }"

text \<open>
  The arguments of the Cholesky decompositions in the result of a method, and graphs
  without any decomposition (the inputs of a method are usually such).
\<close>

definition chol_free :: "tt \<Rightarrow> bool" where
  "chol_free g = (cholesky_args g = [])"

definition result_cholesky_args :: "(tt \<times> tt) option \<Rightarrow> tt list" where
  "result_cholesky_args r =
     (case r of None \<Rightarrow> [] | Some (mean, cov) \<Rightarrow> cholesky_args mean @ cholesky_args cov)"

definition graph_cholesky_args :: "tt option \<Rightarrow> tt list" where
  "graph_cholesky_args r = (case r of None \<Rightarrow> [] | Some g \<Rightarrow> cholesky_args g)"

text \<open>
  Two shapes of argument that are not the result of \<^verbatim>\<open>stabilize\<close>: a stabilized matrix
  plus another matrix, and the identity plus another matrix.
\<close>

text \<open>The full-conjugate argument: a stabilized matrix plus another one.\<close>

definition stabilized_plus :: "tt \<Rightarrow> bool" where
  "stabilized_plus g = (case g of Apply f [a, _] \<Rightarrow> f = op_add \<and> stabilized a | _ \<Rightarrow> False)"

text \<open>The second sparse argument: the identity plus another matrix.\<close>

definition identity_plus :: "tt \<Rightarrow> bool" where
  "identity_plus g = (case g of Apply f [Apply e _, _] \<Rightarrow> f = op_add \<and> e = op_eye | _ \<Rightarrow> False)"

definition plain :: "tt list \<Rightarrow> bool" where
  "plain gs = list_all chol_free gs"

text \<open>
  The branch on \<^verbatim>\<open>approx\<close> of the sparse variant, named for the statements: \<^verbatim>\<open>Lamd\<close> (in
  \<^verbatim>\<open>conditional\<close> and \<^verbatim>\<open>logp\<close>) and the trace term (in \<^verbatim>\<open>logp\<close>).
\<close>

definition sparse_Lamd :: "GPSparseConjugate \<Rightarrow> tt \<Rightarrow> tt option" where
  "sparse_Lamd self Qffd =
     (if gp_approx self = ''FITC'' then
        (case call (gp_K self) (gp_X self) None True of
           None \<Rightarrow> None
         | Some Kffd \<Rightarrow> Some (tt_add (tt_clip (tt_sub Kffd Qffd) 0 None) (gp_sigma2 self)))
      else if gp_approx self = ''VFE'' then
        Some (tt_mul (tt_ones_like Qffd) (gp_sigma2 self))
      else None)"

definition sparse_trace :: "GPSparseConjugate \<Rightarrow> tt \<Rightarrow> tt option" where
  "sparse_trace self A =
     (if gp_approx self = ''FITC'' then
        (case call (gp_K self) (gp_X self) None True of None \<Rightarrow> None | Some _ \<Rightarrow> Some (num 0))
      else if gp_approx self = ''VFE'' then
        (case call (gp_K self) (gp_X self) None True of
           None \<Rightarrow> None
         | Some Kffd \<Rightarrow>
             Some (tt_mul (tt_true_div (num 1) (tt_mul (num 2) (gp_sigma2 self)))
                     (tt_sub (tt_sum Kffd) (tt_sum (tt_sum_axis (tt_mul A A) 0)))))
      else None)"


text \<open>
  A graph that evaluates to a function applied to every entry of a matrix: the shape in
  which the full evaluation of each stationary kernel is computed from the squared
  distances.
\<close>

definition pw :: "(string \<Rightarrow> tensor option) \<Rightarrow> tt \<Rightarrow> real list list \<Rightarrow> (real \<Rightarrow> real) \<Rightarrow> bool" where
  "pw \<rho> g S f = (evaluate \<rho> g = Some (Mat (map (map f) S)))"






text \<open>
  The matrix \<open>A\<close> of the sparse variant, \<open>solve_lower(cholesky(stabilize(K(Xu, Xu))), K(Xu, X))\<close>,
  as \<^verbatim>\<open>logp\<close> builds it.
\<close>

definition sparse_A :: "GPSparseConjugate \<Rightarrow> tt option" where
  "sparse_A self = do {
     Kuu \<leftarrow> call (gp_K self) (gp_Xu self) (Some (gp_Xu self)) False;
     Kuf \<leftarrow> call (gp_K self) (gp_Xu self) (Some (gp_X self)) False;
     Some (solve_lower (cholesky (stabilize Kuu)) Kuf)
   }"

section \<open>Concrete instances\<close>

definition k_example :: kernel where
  "k_example = ExpQuad 1 (Ints [0]) (num 1)"

definition X_example :: tt where
  "X_example = T_const (Mat [[0], [1], [2]])"

definition nonconj_example :: GPFullNonConjugate where
  "nonconj_example =
     GPFullNonConjugate_init ''f'' (T_const (Mat [[0], [1]])) Zero (ExpQuad 1 (Ints [0]) (num 1))"

definition lin_example :: kernel where
  "lin_example = Linear 1 (Ints [0]) (num 0)"

definition X2_example :: tt where
  "X2_example = T_const (Mat [[1], [2]])"

definition fs_example :: "factor list" where
  "fs_example = [F_cov lin_example, F_ndarray (Mat [[2, 7], [9, 3]]),
                 F_tensor (T_const (Mat [[1, 5], [6, 1]]))]"

definition fs_diag_example :: "factor list" where
  "fs_diag_example = [F_cov lin_example, F_ndarray (Mat [[2, 0], [0, 3]]),
                      F_tensor (T_const (Mat [[1, 0], [0, 1]]))]"

definition full_example :: GPFullConjugate where
  "full_example =
     GPFullConjugate_init (T_const (Mat [[1000]])) Zero (Linear 1 (Ints [0]) (num 0))
       (\<lambda>X. Some (tt_mul (tt_square (num 4900)) (tt_eye (shape0 X))))"

definition Xs_example :: tt where
  "Xs_example = T_const (Mat [[1]])"

definition y_example :: tt where
  "y_example = T_const (Vec [7])"

definition sparse_example :: GPSparseConjugate where
  "sparse_example =
     GPSparseConjugate_init (T_const (Mat [[2]])) Zero (Linear 1 (Ints [0]) (num 0))
       (num 1) ''VFE'' (T_const (Mat [[1]]))"

definition fitc_example :: GPSparseConjugate where
  "fitc_example =
     GPSparseConjugate_init (T_const (Mat [[2]])) Zero (Linear 1 (Ints [0]) (num 0))
       (num 1) ''FITC'' (T_const (Mat [[1]]))"

definition y0_example :: tt where
  "y0_example = T_const (Vec [0])"

section \<open>Properties\<close>

subsection \<open>Construction of a Gibbs kernel\<close>

lemma Gibbs_init_succeeds_iff:
  "(\<exists>k. Gibbs_init idim lf args adms = Inr k) \<longleftrightarrow>
     idim = 1 \<and> (\<exists>l. lf = Callable l) \<and>
     (case adms of None \<Rightarrow> True | Some a \<Rightarrow> len_adims a = 1 \<and> sum_adims a \<noteq> 1)"
  by (auto simp: Gibbs_init_def Covariance_init_def split: option.splits pyfunc.splits if_splits)

text \<open>
  C7. A Gibbs kernel on one input dimension whose \<^verbatim>\<open>active_dims\<close> selects that one
  dimension is not built: the test \<^verbatim>\<open>sum(active_dims) == 1\<close> raises
  \<^verbatim>\<open>NotImplementedError\<close>, although the input is one-dimensional and the function is
  callable.
\<close>

theorem Gibbs_init_one_active_dim_raises:
  "Gibbs_init 1 (Callable f) NoArgs (Some (Bools [True])) = Inl NotImplementedError"
  by (simp add: Gibbs_init_def Covariance_init_def len_adims_def sum_adims_def)

theorem Gibbs_init_one_active_dim_raises_witness:
  "Gibbs_init 1 (Callable (\<lambda>x args. x)) NoArgs (Some (Bools [True])) = Inl NotImplementedError"
  using Gibbs_init_one_active_dim_raises [of "\<lambda>x args. x"] by simp

subsection \<open>The log density of the non-conjugate variant\<close>

text \<open>
  C10. \<^verbatim>\<open>GPFullNonConjugate\<close> inherits \<^verbatim>\<open>logp\<close> from \<^verbatim>\<open>GPBase\<close>: for every \<open>y\<close> the
  result is the constant zero. The variable that \<^verbatim>\<open>RV\<close> returns carries this object as
  its distribution, and the only random variable \<^verbatim>\<open>RV\<close> registers is the rotated one,
  a normal variable with mean zero and standard deviation one.
\<close>

theorem nonconjugate_logp_is_zero:
  "logp_nonconj self y = Some (num 0) \<and>
   evaluate \<rho> (num 0) = Some (Scalar 0) \<and>
   (\<forall>f. RV self = Some f \<longrightarrow>
      logp (NonConjugate f) y = Some (num 0) \<and>
      free_RV f = (gp_name self @ ''_rotated_'', Normal 0 1 (gp_nf self)))"
  by (auto simp: logp_nonconj_def GPBase_logp_def RV_def Let_def split: option.splits)

theorem nonconjugate_logp_is_zero_witness:
  "(\<exists>f. RV nonconj_example = Some f) \<and>
   logp (NonConjugate (the (RV nonconj_example))) (T_const (Vec [3, 4])) = Some (num 0)"
  using nonconjugate_logp_is_zero [of nonconj_example "T_const (Vec [3, 4])" "\<lambda>_. None"]
  by (simp add: RV_def nonconj_example_def GPFullNonConjugate_init_def Let_def)

subsection \<open>The selection of trace indices\<close>




subsection \<open>The constructor and the approximation argument\<close>

lemma GP_approximation_Some_log:
  "fst (GP_approximation ii X mf cf sigma (Some a) n_ind ip) = []"
  by (simp add: GP_approximation_def Let_def split: option.splits prod.splits)

lemma GP_approximation_sparse:
  "snd (GP_approximation ii X mf cf sigma (Some a) n_ind ip) = Inr (SparseConjugate g) \<Longrightarrow>
   gp_approx g = a"
  by (auto simp: GP_approximation_def Let_def GPSparseConjugate_init_def
           split: option.splits prod.splits if_splits)

text \<open>
  C9. \<^verbatim>\<open>GP\<close> never logs the message of the default to VFE. With observed data, no
  \<^verbatim>\<open>approx\<close> and one of \<^verbatim>\<open>n_inducing\<close> and \<^verbatim>\<open>inducing_points\<close> it raises; when the model,
  the mean function and the covariance function pass their checks the exception is the
  \<^verbatim>\<open>AttributeError\<close> of \<^verbatim>\<open>approx.upper()\<close>. Every sparse object it returns was built from
  an \<^verbatim>\<open>approx\<close> argument, in upper case.
\<close>

theorem GP_approx_None_fails:
  "fst (GP ctx ii name X mean_func cov_func cov_func_noise sigma approx n_inducing
          inducing_points observed model) = [] \<and>
   (observed \<noteq> None \<and> approx = None \<and> (n_inducing \<noteq> None \<or> inducing_points \<noteq> None) \<longrightarrow>
      (\<exists>e. snd (GP ctx ii name X mean_func cov_func cov_func_noise sigma approx n_inducing
                  inducing_points observed model) = Inl e) \<and>
      ((\<exists>m. modelcontext ctx model = Inr m) \<and> mean_func \<noteq> Some NotMean \<and>
       (\<exists>k. cov_func = Some (IsCovariance k)) \<longrightarrow>
         snd (GP ctx ii name X mean_func cov_func cov_func_noise sigma approx n_inducing
                inducing_points observed model) = Inl AttributeError)) \<and>
   (\<forall>g. snd (GP ctx ii name X mean_func cov_func cov_func_noise sigma approx n_inducing
               inducing_points observed model) = Inr (SparseConjugate g) \<longrightarrow>
      (\<exists>a. approx = Some a \<and> gp_approx g = upper a))"
proof (intro conjI)
  show "fst (GP ctx ii name X mean_func cov_func cov_func_noise sigma approx n_inducing
          inducing_points observed model) = []"
    by (simp add: GP_def GP_approximation_Some_log
             split: sum.splits option.splits pymean.splits pycov.splits prod.splits)
next
  show "observed \<noteq> None \<and> approx = None \<and> (n_inducing \<noteq> None \<or> inducing_points \<noteq> None) \<longrightarrow>
      (\<exists>e. snd (GP ctx ii name X mean_func cov_func cov_func_noise sigma approx n_inducing
                  inducing_points observed model) = Inl e) \<and>
      ((\<exists>m. modelcontext ctx model = Inr m) \<and> mean_func \<noteq> Some NotMean \<and>
       (\<exists>k. cov_func = Some (IsCovariance k)) \<longrightarrow>
         snd (GP ctx ii name X mean_func cov_func cov_func_noise sigma approx n_inducing
                inducing_points observed model) = Inl AttributeError)"
    by (auto simp: GP_def split: sum.splits option.splits pymean.splits pycov.splits)
next
  show "\<forall>g. snd (GP ctx ii name X mean_func cov_func cov_func_noise sigma approx n_inducing
               inducing_points observed model) = Inr (SparseConjugate g) \<longrightarrow>
      (\<exists>a. approx = Some a \<and> gp_approx g = upper a)"
    by (auto simp: GP_def dest: GP_approximation_sparse
             split: sum.splits option.splits pymean.splits pycov.splits if_splits prod.splits)
qed

theorem GP_approx_None_fails_witness:
  "snd (GP (Some ()) (\<lambda>X n. X) ''f'' X_example None (Some (IsCovariance k_example)) None
          (Some (num 1)) None (Some 2) None (Some (T_const (Vec [0, 1, 2]))) None)
     = Inl AttributeError \<and>
   (\<exists>g. snd (GP (Some ()) (\<lambda>X n. X) ''f'' X_example None (Some (IsCovariance k_example)) None
          (Some (num 1)) (Some ''fitc'') (Some 2) None (Some (T_const (Vec [0, 1, 2]))) None)
     = Inr (SparseConjugate g) \<and> gp_approx g = ''FITC'')"
proof -
  have u: "upper ''fitc'' = ''FITC''" by code_simp
  have a: "snd (GP (Some ()) (\<lambda>X n. X) ''f'' X_example None (Some (IsCovariance k_example)) None
          (Some (num 1)) None (Some 2) None (Some (T_const (Vec [0, 1, 2]))) None)
     = Inl AttributeError"
    using GP_approx_None_fails [of "Some ()" "\<lambda>X n. X" "''f''" X_example None
        "Some (IsCovariance k_example)" None "Some (num 1)" None "Some 2" None
        "Some (T_const (Vec [0, 1, 2]))" None]
    by (simp add: modelcontext_def)
  have b: "\<exists>g. snd (GP (Some ()) (\<lambda>X n. X) ''f'' X_example None (Some (IsCovariance k_example)) None
          (Some (num 1)) (Some ''fitc'') (Some 2) None (Some (T_const (Vec [0, 1, 2]))) None)
     = Inr (SparseConjugate g) \<and> gp_approx g = ''FITC''"
    using GP_approx_None_fails [of "Some ()" "\<lambda>X n. X" "''f''" X_example None
        "Some (IsCovariance k_example)" None "Some (num 1)" "Some ''fitc''" "Some 2" None
        "Some (T_const (Vec [0, 1, 2]))" None]
    by (simp add: GP_def modelcontext_def GP_approximation_def u Let_def)
  from a b show ?thesis by blast
qed

subsection \<open>Flattening of nested combinations\<close>

lemma kernel_add_eq:
  "kernel_add k f =
     Inr (Combination Add (fold max (factor_input_dims [f]) (input_dim k))
            (Ints [0..fold max (factor_input_dims [f]) (input_dim k) - 1])
            (extend_factor Add (F_cov k) @ extend_factor Add f))"
  by (simp add: kernel_add_def Combination_init_def Covariance_init_def)

lemma kernel_mul_eq:
  "kernel_mul k f =
     Inr (Combination Prod (fold max (factor_input_dims [f]) (input_dim k))
            (Ints [0..fold max (factor_input_dims [f]) (input_dim k) - 1])
            (extend_factor Prod (F_cov k) @ extend_factor Prod f))"
  by (simp add: kernel_mul_def Combination_init_def Covariance_init_def)

lemma extend_factor_other: "\<not> is_cls c k \<Longrightarrow> extend_factor c (F_cov k) = [F_cov k]"
  by (cases k) (auto simp: is_cls_def)

lemma max_assoc3:
  "max (input_dim k3) (max (input_dim k2) (input_dim k1)) =
   max (max (input_dim k3) (input_dim k2)) (input_dim k1)"
  by (simp add: max.assoc)

text \<open>
  C5. For kernels \<open>k1\<close>, \<open>k2\<close>, \<open>k3\<close>, both \<open>(k1 + k2) + k3\<close> and \<open>k1 + (k2 + k3)\<close> are built,
  with the same list of terms: the terms of \<open>k1\<close>, of \<open>k2\<close> and of \<open>k3\<close>, where a sum
  contributes its own terms and any other kernel is one term. So when none of the three
  is a sum the list has the three kernels, and in every case the two objects evaluate
  alike on every input. A product inside a sum, and a sum inside a product, stays one term.
\<close>

theorem same_class_terms_merge:
  "(\<exists>k12 k23 ka kb.
      kernel_add k1 (F_cov k2) = Inr k12 \<and> kernel_add k2 (F_cov k3) = Inr k23 \<and>
      kernel_add k12 (F_cov k3) = Inr ka \<and> kernel_add k1 (F_cov k23) = Inr kb \<and>
      factor_list ka = terms_of Add k1 @ terms_of Add k2 @ terms_of Add k3 \<and>
      factor_list kb = terms_of Add k1 @ terms_of Add k2 @ terms_of Add k3 \<and>
      (\<not> is_cls Add k1 \<and> \<not> is_cls Add k2 \<and> \<not> is_cls Add k3 \<longrightarrow>
         factor_list ka = [F_cov k1, F_cov k2, F_cov k3]) \<and>
      (\<forall>\<rho> X Xs diag. evaluate_call \<rho> ka X Xs diag = evaluate_call \<rho> kb X Xs diag)) \<and>
   (\<exists>kp k. kernel_mul k1 (F_cov k2) = Inr kp \<and> kernel_add kp (F_cov k3) = Inr k \<and>
      factor_list k = F_cov kp # terms_of Add k3) \<and>
   (\<exists>ks k. kernel_add k1 (F_cov k2) = Inr ks \<and> kernel_mul ks (F_cov k3) = Inr k \<and>
      factor_list k = F_cov ks # terms_of Prod k3)"
proof (intro conjI)
  have e: "kernel_add k1 (F_cov k2) = Inr (Combination Add (max (input_dim k2) (input_dim k1))
             (Ints [0..max (input_dim k2) (input_dim k1) - 1]) (terms_of Add k1 @ terms_of Add k2))"
    by (simp add: kernel_add_eq terms_of_def)
  have f: "kernel_add k2 (F_cov k3) = Inr (Combination Add (max (input_dim k3) (input_dim k2))
             (Ints [0..max (input_dim k3) (input_dim k2) - 1]) (terms_of Add k2 @ terms_of Add k3))"
    by (simp add: kernel_add_eq terms_of_def)
  show "\<exists>k12 k23 ka kb.
      kernel_add k1 (F_cov k2) = Inr k12 \<and> kernel_add k2 (F_cov k3) = Inr k23 \<and>
      kernel_add k12 (F_cov k3) = Inr ka \<and> kernel_add k1 (F_cov k23) = Inr kb \<and>
      factor_list ka = terms_of Add k1 @ terms_of Add k2 @ terms_of Add k3 \<and>
      factor_list kb = terms_of Add k1 @ terms_of Add k2 @ terms_of Add k3 \<and>
      (\<not> is_cls Add k1 \<and> \<not> is_cls Add k2 \<and> \<not> is_cls Add k3 \<longrightarrow>
         factor_list ka = [F_cov k1, F_cov k2, F_cov k3]) \<and>
      (\<forall>\<rho> X Xs diag. evaluate_call \<rho> ka X Xs diag = evaluate_call \<rho> kb X Xs diag)"
    unfolding e f
    by (simp add: kernel_add_eq terms_of_def extend_factor_other max_assoc3)
next
  show "\<exists>kp k. kernel_mul k1 (F_cov k2) = Inr kp \<and> kernel_add kp (F_cov k3) = Inr k \<and>
      factor_list k = F_cov kp # terms_of Add k3"
    by (simp add: kernel_mul_eq kernel_add_eq terms_of_def)
next
  show "\<exists>ks k. kernel_add k1 (F_cov k2) = Inr ks \<and> kernel_mul ks (F_cov k3) = Inr k \<and>
      factor_list k = F_cov ks # terms_of Prod k3"
    by (simp add: kernel_mul_eq kernel_add_eq terms_of_def)
qed

theorem same_class_terms_merge_witness:
  "\<not> is_cls Add (ExpQuad 1 (Ints [0]) (num 1)) \<and> \<not> is_cls Add (Linear 2 (Ints [0, 1]) (num 0)) \<and>
   \<not> is_cls Add (Matern32 1 (Ints [0]) (num 2)) \<and>
   (\<exists>k12 ka. kernel_add (ExpQuad 1 (Ints [0]) (num 1)) (F_cov (Linear 2 (Ints [0, 1]) (num 0))) = Inr k12 \<and>
      kernel_add k12 (F_cov (Matern32 1 (Ints [0]) (num 2))) = Inr ka \<and>
      factor_list ka = [F_cov (ExpQuad 1 (Ints [0]) (num 1)), F_cov (Linear 2 (Ints [0, 1]) (num 0)),
                        F_cov (Matern32 1 (Ints [0]) (num 2))])"
  using same_class_terms_merge [of "ExpQuad 1 (Ints [0]) (num 1)" "Linear 2 (Ints [0, 1]) (num 0)"
     "Matern32 1 (Ints [0]) (num 2)"]
  by (auto simp: is_cls_def)

subsection \<open>Evaluation of elementwise operations\<close>

lemma of_mat_numeral [simp]:
  "of_mat 2 M = Some (Mat M)" "of_mat 1 [v] = Some (Vec v)"
  by (simp_all add: numeral_2_eq_2)

lemma evaluate_Apply2:
  "evaluate \<rho> (Apply f [a, b]) =
     (case (evaluate \<rho> a, evaluate \<rho> b) of (Some s, Some t) \<Rightarrow> perform2 f s t | _ \<Rightarrow> None)"
  by (simp split: option.splits)

lemma evaluate_Apply1:
  "evaluate \<rho> (Apply f [a]) =
     (case evaluate \<rho> a of Some s \<Rightarrow> perform1 f s | _ \<Rightarrow> None)"
  by (simp split: option.splits)

lemma those_map_SomeI:
  "(\<And>x. x \<in> set xs \<Longrightarrow> f x = Some (g x)) \<Longrightarrow> those (map f xs) = Some (map g xs)"
  by (induction xs) simp_all

lemma zip_bc_left1: "zip_bc f [x] ys = those (map (f x) ys)"
  by (cases ys rule: list.exhaust [case_names Nil Cons]; cases "tl ys")
     (auto simp: zip_bc_def)

lemma zip_bc_right1: "zip_bc f xs [y] = those (map (\<lambda>x. f x y) xs)"
  by (cases xs rule: list.exhaust [case_names Nil Cons]; cases "tl xs")
     (auto simp: zip_bc_def)

lemma zip_bc_same:
  "length xs = length ys \<Longrightarrow> zip_bc f xs ys = those (map2 f xs ys)"
  by (simp add: zip_bc_def)

lemma those_map2_SomeI:
  "(\<And>i. i < length xs \<Longrightarrow> i < length ys \<Longrightarrow> f (xs ! i) (ys ! i) = Some (g (xs ! i) (ys ! i))) \<Longrightarrow>
   those (map2 f xs ys) = Some (map2 g xs ys)"
proof -
  assume h: "\<And>i. i < length xs \<Longrightarrow> i < length ys \<Longrightarrow> f (xs ! i) (ys ! i) = Some (g (xs ! i) (ys ! i))"
  have "those (map (\<lambda>p. f (fst p) (snd p)) (zip xs ys)) = Some (map (\<lambda>p. g (fst p) (snd p)) (zip xs ys))"
  proof (rule those_map_SomeI)
    fix p assume "p \<in> set (zip xs ys)"
    then obtain i where "i < length xs" "i < length ys" "p = (xs ! i, ys ! i)"
      by (auto simp: set_zip)
    then show "f (fst p) (snd p) = Some (g (fst p) (snd p))" using h by simp
  qed
  then show ?thesis by (simp add: case_prod_unfold)
qed

lemma binop_scalar_scalar: "binop f (Scalar a) (Scalar b) = map_option Scalar (f a b)"
  by (cases "f a b") (simp_all add: binop_def zip_bc_def)

lemma binop_scalar_mat:
  "(\<And>r x. r \<in> set M \<Longrightarrow> x \<in> set r \<Longrightarrow> f a x = Some (g x)) \<Longrightarrow>
   binop f (Scalar a) (Mat M) = Some (Mat (map (map g) M))"
proof -
  assume h: "\<And>r x. r \<in> set M \<Longrightarrow> x \<in> set r \<Longrightarrow> f a x = Some (g x)"
  have "those (map (zip_bc f [a]) M) = Some (map (map g) M)"
    by (rule those_map_SomeI) (simp add: zip_bc_left1 those_map_SomeI h)
  then show ?thesis by (simp add: binop_def zip_bc_left1)
qed



lemma binop_vec_scalar:
  "(\<And>x. x \<in> set v \<Longrightarrow> f x b = Some (g x)) \<Longrightarrow>
   binop f (Vec v) (Scalar b) = Some (Vec (map g v))"
  by (simp add: binop_def zip_bc_left1 zip_bc_right1 those_map_SomeI)

lemma binop_vec_vec:
  "length u = length v \<Longrightarrow>
   (\<And>i. i < length u \<Longrightarrow> f (u ! i) (v ! i) = Some (g (u ! i) (v ! i))) \<Longrightarrow>
   binop f (Vec u) (Vec v) = Some (Vec (map2 g u v))"
  by (simp add: binop_def zip_bc_left1 zip_bc_same those_map2_SomeI)

lemma binop_mat_mat:
  assumes "length A = length B"
      and "\<And>i. i < length A \<Longrightarrow> length (A ! i) = length (B ! i)"
      and "\<And>i j. i < length A \<Longrightarrow> j < length (A ! i) \<Longrightarrow>
             f (A ! i ! j) (B ! i ! j) = Some (g (A ! i ! j) (B ! i ! j))"
  shows "binop f (Mat A) (Mat B) = Some (Mat (map2 (map2 g) A B))"
proof -
  have "those (map2 (zip_bc f) A B) = Some (map2 (map2 g) A B)"
  proof (rule those_map2_SomeI)
    fix i assume i: "i < length A" "i < length B"
    show "zip_bc f (A ! i) (B ! i) = Some (map2 g (A ! i) (B ! i))"
      using assms(2) [OF i(1)] assms(3) [OF i(1)]
      by (simp add: zip_bc_same those_map2_SomeI)
  qed
  then show ?thesis using assms(1) by (simp add: binop_def zip_bc_same)
qed




lemma unop_vec:
  "(\<And>x. x \<in> set v \<Longrightarrow> f x = Some (g x)) \<Longrightarrow> unop f (Vec v) = Some (Vec (map g v))"
  by (simp add: those_map_SomeI)

lemma rect_nth: "rect c M \<Longrightarrow> i < length M \<Longrightarrow> length (M ! i) = c"
  by (simp add: rect_def list_all_length)

lemma extent_of_nat [simp]: "extent (of_nat n) = Some n"
  by (simp add: extent_def)

lemma length_eye [simp]: "length (eye n) = n"
  by (simp add: eye_def)

lemma zip_bc_commute:
  assumes h: "\<And>a b. f a b = g b a"
  shows "zip_bc f xs ys = zip_bc g ys xs"
proof -
  have e: "map2 f xs ys = map2 g ys xs"
    by (rule nth_equalityI) (simp_all add: h)
  have fg: "f = (\<lambda>a b. g b a)"
    by (intro ext) (rule h)
  have e1: "\<And>a. those (map (f a) ys) = those (map (\<lambda>x. g x a) ys)"
    unfolding fg by (rule refl)
  have e2: "\<And>b. those (map (\<lambda>x. f x b) xs) = those (map (g b) xs)"
    unfolding fg by (rule refl)
  consider "length xs = length ys" | "length xs \<noteq> length ys" "length xs = 1"
    | "length xs \<noteq> length ys" "length xs \<noteq> 1" "length ys = 1"
    | "length xs \<noteq> length ys" "length xs \<noteq> 1" "length ys \<noteq> 1"
    by blast
  then show ?thesis
  proof cases
    case 1
    then show ?thesis using e by (simp add: zip_bc_def)
  next
    case 2
    then show ?thesis using e1 [of "hd xs"] by (simp add: zip_bc_def)
  next
    case 3
    then show ?thesis using e2 [of "hd ys"] by (simp add: zip_bc_def)
  next
    case 4
    then show ?thesis by (simp add: zip_bc_def)
  qed
qed

lemma binop_add_commute: "binop f_add s t = binop f_add t s"
proof -
  have "zip_bc (zip_bc f_add) (to_mat s) (to_mat t) = zip_bc (zip_bc f_add) (to_mat t) (to_mat s)"
    by (rule zip_bc_commute, rule zip_bc_commute) (simp add: f_add_def)
  moreover have "max (ndim s) (ndim t) = max (ndim t) (ndim s)"
    by (rule max.commute)
  ultimately show ?thesis by (simp add: binop_def cong: option.case_cong)
qed

lemma evaluate_add_commute: "evaluate \<rho> (tt_add a b) = evaluate \<rho> (tt_add b a)"
  by (simp add: evaluate_Apply2 binop_add_commute del: evaluate.simps(3) split: option.splits)

lemmas tensor_eval =
  Let_def rect_def ncols_def binop_def zip_bc_def f_add_def f_sub_def f_mul_def f_div_def
  diagonal_def eye_def extent_def dot_def dotp_def take_cols_def col_indices_def index_col_def
  slice_def np_diag_def flat_def

subsection \<open>Combinations evaluated on the diagonal\<close>

lemma those_map_Some: "those (map (\<lambda>x. Some (g x)) xs) = Some (map g xs)"
  by (induction xs) simp_all

lemma zip_bc_total_eq:
  "length xs = length ys \<Longrightarrow> zip_bc (\<lambda>a b. Some (g a b)) xs ys = Some (map2 g xs ys)"
proof -
  assume "length xs = length ys"
  then have "zip_bc (\<lambda>a b. Some (g a b)) xs ys = those (map (\<lambda>p. Some (case p of (a, b) \<Rightarrow> g a b)) (zip xs ys))"
    by (simp add: zip_bc_def case_prod_unfold)
  then show ?thesis by (simp add: those_map_Some)
qed

lemma foldl_combine2_None: "foldl (combine2 c) None vs = None"
  by (induction vs) (simp_all add: combine2_def)

lemma cls_graph:
  "(case c of Add \<Rightarrow> tt_add | Prod \<Rightarrow> tt_mul) = (\<lambda>a b. Apply (cls_op c) [a, b])"
  by (cases c) (simp_all add: cls_op_def)

lemma foldl_graph_value:
  "merge_factors fs X Xs dg = Some gs \<Longrightarrow>
   evaluate \<rho> (foldl (\<lambda>a b. Apply (cls_op c) [a, b]) g gs) =
   foldl (combine2 c) (evaluate \<rho> g) (map (term_value \<rho> X Xs dg) fs)"
proof (induction fs arbitrary: g gs)
  case Nil
  then show ?case by simp
next
  case (Cons f fs)
  from Cons.prems obtain h hs where h: "merge_factor f X Xs dg = Some h"
    and hs: "merge_factors fs X Xs dg = Some hs" and gs: "gs = h # hs"
    by (auto split: option.splits)
  have "evaluate \<rho> (Apply (cls_op c) [g, h]) = combine2 c (evaluate \<rho> g) (term_value \<rho> X Xs dg f)"
    by (simp add: combine2_def term_value_def h split: option.splits)
  with Cons.IH [OF hs, of "Apply (cls_op c) [g, h]"] show ?case
    by (simp add: gs)
qed

lemma foldl_value_None:
  "merge_factors fs X Xs dg = None \<Longrightarrow>
   foldl (combine2 c) v (map (term_value \<rho> X Xs dg) fs) = None"
proof (induction fs arbitrary: v)
  case Nil
  then show ?case by simp
next
  case (Cons f fs)
  show ?case
  proof (cases "merge_factor f X Xs dg")
    case None
    then have "combine2 c v (term_value \<rho> X Xs dg f) = None"
      by (simp add: combine2_def term_value_def split: option.splits)
    then show ?thesis by (simp add: foldl_combine2_None)
  next
    case (Some h)
    with Cons.prems have "merge_factors fs X Xs dg = None"
      by (auto split: option.splits)
    from Cons.IH [OF this] show ?thesis by simp
  qed
qed

lemma combination_value:
  "evaluate_call \<rho> (Combination c d a fs) X Xs dg =
     (case map (term_value \<rho> X Xs dg) fs of [] \<Rightarrow> None | v # vs \<Rightarrow> foldl (combine2 c) v vs)"
proof (cases fs)
  case Nil
  then show ?thesis by (simp add: evaluate_call_def)
next
  case (Cons f fs')
  show ?thesis
  proof (cases "merge_factor f X Xs dg")
    case None
    then show ?thesis
      by (simp add: evaluate_call_def Cons term_value_def foldl_combine2_None)
  next
    case (Some g)
    show ?thesis
    proof (cases "merge_factors fs' X Xs dg")
      case None
      with Some foldl_value_None [OF None, of c "evaluate \<rho> g" \<rho>] show ?thesis
        by (simp add: evaluate_call_def Cons term_value_def)
    next
      case (Some gs)
      with \<open>merge_factor f X Xs dg = Some g\<close> foldl_graph_value [OF Some, of \<rho> c g] show ?thesis
        by (simp add: evaluate_call_def Cons term_value_def cls_graph)
    qed
  qed
qed

lemma same_diagonal_term_value:
  "same_diagonal \<rho> X Xs f f' \<Longrightarrow> term_value \<rho> X Xs True f = term_value \<rho> X Xs True f'"
proof (induction \<rho> X Xs f f' rule: same_diagonal.induct)
  case (1 \<rho> X Xs s t)
  then show ?case by (auto simp: term_value_def)
next
  case (2 \<rho> X Xs g h)
  then show ?case by (auto simp: term_value_def)
next
  case (3 \<rho> X Xs k k')
  then show ?case by (simp add: term_value_def evaluate_call_def)
qed (simp_all)

lemma same_diagonal_map:
  "list_all2 (same_diagonal \<rho> X Xs) fs fs' \<Longrightarrow>
   map (term_value \<rho> X Xs True) fs = map (term_value \<rho> X Xs True) fs'"
  by (induction rule: list_all2_induct) (simp_all add: same_diagonal_term_value)

lemma combine2_Vec:
  "length u = length v \<Longrightarrow>
   combine2 c (Some (Vec u)) (Some (Vec v)) = Some (Vec (map2 (cls_fun c) u v))"
proof -
  assume l: "length u = length v"
  have z: "zip_bc (\<lambda>a b. Some (cls_fun c a b)) u v = Some (map2 (cls_fun c) u v)"
    using l by (rule zip_bc_total_eq)
  have "zip_bc (zip_bc (\<lambda>a b. Some (cls_fun c a b))) [u] [v] = Some [map2 (cls_fun c) u v]"
    by (simp add: zip_bc_def [of "zip_bc (\<lambda>a b. Some (cls_fun c a b))"] z)
  moreover have "f_add = (\<lambda>a b. Some (a + b))" "f_mul = (\<lambda>a b. Some (a * b))"
    by (simp_all add: fun_eq_iff f_add_def f_mul_def)
  ultimately show ?thesis
    by (cases c) (simp_all add: combine2_def cls_op_def binop_def cls_fun_def)
qed

lemma foldl_combine2_Vec:
  "\<forall>v \<in> set vs. length v = length u \<Longrightarrow>
   foldl (combine2 c) (Some (Vec u)) (map (\<lambda>v. Some (Vec v)) vs) =
   Some (Vec (map (\<lambda>i. foldl (cls_fun c) (u ! i) (map (\<lambda>v. v ! i) vs)) [0..<length u]))"
proof (induction vs arbitrary: u)
  case Nil
  then show ?case by (simp add: map_nth)
next
  case (Cons v vs)
  then have l: "length u = length v" by simp
  have "\<forall>w \<in> set vs. length w = length (map2 (cls_fun c) u v)"
    using Cons.prems by simp
  from Cons.IH [OF this] show ?case
    using l by (simp add: combine2_Vec)
qed

text \<open>
  C4. When a sum or a product is evaluated with \<^verbatim>\<open>diag=True\<close>, \<^verbatim>\<open>merge_factors\<close> replaces
  every two-dimensional array by its diagonal and every two-dimensional tensor by
  \<^verbatim>\<open>tt.diag\<close> of it before the terms are reduced. The value of the combination is the
  left-to-right combination of the values of these terms; for terms that are vectors of one
  length it is their elementwise sum or product. Replacing a term by one with the same
  diagonal (another matrix with that diagonal, another kernel with that diagonal
  evaluation) does not change the value: entries off the diagonal play no part.
\<close>

theorem combination_diag_reduces_matrices:
  "(\<forall>M. merge_factor (F_ndarray (Mat M)) X Xs True = Some (T_const (Vec (diagonal M)))) \<and>
   (\<forall>g. tt_ndim g = 2 \<longrightarrow> merge_factor (F_tensor g) X Xs True = Some (tt_diag g)) \<and>
   evaluate_call \<rho> (Combination c d a fs) X Xs True =
     (case map (term_value \<rho> X Xs True) fs of [] \<Rightarrow> None | v # vs \<Rightarrow> foldl (combine2 c) v vs) \<and>
   (\<forall>u vs. map (term_value \<rho> X Xs True) fs = map (\<lambda>v. Some (Vec v)) (u # vs) \<and>
       (\<forall>v \<in> set vs. length v = length u) \<longrightarrow>
       evaluate_call \<rho> (Combination c d a fs) X Xs True =
         Some (Vec (map (\<lambda>i. foldl (cls_fun c) (u ! i) (map (\<lambda>v. v ! i) vs)) [0..<length u]))) \<and>
   (\<forall>fs' d' a'. list_all2 (same_diagonal \<rho> X Xs) fs fs' \<longrightarrow>
       evaluate_call \<rho> (Combination c d a fs) X Xs True =
       evaluate_call \<rho> (Combination c d' a' fs') X Xs True)"
proof (intro conjI allI impI)
  fix M show "merge_factor (F_ndarray (Mat M)) X Xs True = Some (T_const (Vec (diagonal M)))"
    by (simp add: np_diag_def)
next
  fix g assume "tt_ndim g = 2"
  then show "merge_factor (F_tensor g) X Xs True = Some (tt_diag g)" by simp
next
  show "evaluate_call \<rho> (Combination c d a fs) X Xs True =
     (case map (term_value \<rho> X Xs True) fs of [] \<Rightarrow> None | v # vs \<Rightarrow> foldl (combine2 c) v vs)"
    by (rule combination_value)
next
  fix u vs
  assume h: "map (term_value \<rho> X Xs True) fs = map (\<lambda>v. Some (Vec v)) (u # vs) \<and>
       (\<forall>v \<in> set vs. length v = length u)"
  then show "evaluate_call \<rho> (Combination c d a fs) X Xs True =
         Some (Vec (map (\<lambda>i. foldl (cls_fun c) (u ! i) (map (\<lambda>v. v ! i) vs)) [0..<length u]))"
    using foldl_combine2_Vec [of vs u c] by (simp add: combination_value)
next
  fix fs' d' a'
  assume "list_all2 (same_diagonal \<rho> X Xs) fs fs'"
  from same_diagonal_map [OF this]
  show "evaluate_call \<rho> (Combination c d a fs) X Xs True =
       evaluate_call \<rho> (Combination c d' a' fs') X Xs True"
    by (simp add: combination_value)
qed

lemma lin_diag_value:
  "term_value \<rho> X2_example None True (F_cov lin_example) = Some (Vec [1, 4])"
  by (simp add: term_value_def lin_example_def X2_example_def Linear_diag_def Linear_common_def
        tensor_eval)

lemma arr_value:
  "term_value \<rho> X2_example None True (F_ndarray (Mat [[2, 7], [9, 3]])) = Some (Vec [2, 3])"
  by (simp add: term_value_def tensor_eval upt_rec)

lemma tens_value:
  "term_value \<rho> X2_example None True (F_tensor (T_const (Mat [[1, 5], [6, 1]]))) = Some (Vec [1, 1])"
  by (simp add: term_value_def tensor_eval upt_rec)

theorem combination_diag_reduces_matrices_witness:
  "tt_ndim (T_const (Mat [[1, 5], [6, 1]])) = 2 \<and>
   list_all2 (same_diagonal (\<lambda>_. None) X2_example None) fs_example fs_diag_example \<and>
   evaluate_call (\<lambda>_. None) (Combination Prod 1 (Ints [0]) fs_example) X2_example None True
     = Some (Vec [2, 12]) \<and>
   evaluate_call (\<lambda>_. None) (Combination Prod 1 (Ints [0]) fs_diag_example) X2_example None True
     = Some (Vec [2, 12])"
proof -
  have n: "tt_ndim (T_const (Mat [[1, 5], [6, 1]])) = 2" by simp
  have s: "list_all2 (same_diagonal (\<lambda>_. None) X2_example None) fs_example fs_diag_example"
    by (simp add: fs_example_def fs_diag_example_def tensor_eval upt_rec)
  have m: "map (term_value (\<lambda>_. None) X2_example None True) fs_example =
           map (\<lambda>v. Some (Vec v)) ([1, 4] # [[2, 3], [1, 1]])"
    by (simp add: fs_example_def lin_diag_value arr_value tens_value)
  have l: "\<forall>v \<in> set [[2, 3], [1, 1 :: real]]. length v = length [1, 4 :: real]" by simp
  from combination_diag_reduces_matrices [of X2_example None "\<lambda>_. None" Prod 1 "Ints [0]" fs_example]
  have a: "evaluate_call (\<lambda>_. None) (Combination Prod 1 (Ints [0]) fs_example) X2_example None True =
         Some (Vec (map (\<lambda>i. foldl (cls_fun Prod) ([1, 4] ! i) (map (\<lambda>v. v ! i) [[2, 3], [1, 1]])) [0..<length [1, 4 :: real]]))"
    and b: "evaluate_call (\<lambda>_. None) (Combination Prod 1 (Ints [0]) fs_example) X2_example None True =
       evaluate_call (\<lambda>_. None) (Combination Prod 1 (Ints [0]) fs_diag_example) X2_example None True"
    using m l s by blast+
  from a have a': "evaluate_call (\<lambda>_. None) (Combination Prod 1 (Ints [0]) fs_example) X2_example None True = Some (Vec [2, 12])"
    by (simp add: cls_fun_def upt_rec)
  from n s a' b show ?thesis by simp
qed

subsection \<open>Stabilization\<close>

lemma stabilize_value:
  assumes K: "evaluate \<rho> K = Some (Mat M)" and n: "length M = n" and r: "rect n M" and pos: "0 < n"
  shows "evaluate \<rho> (stabilize K) =
    Some (Mat (map (\<lambda>i. map (\<lambda>j. M ! i ! j +
       (if i = j then 1 / 10 ^ 6 * (sum_list (diagonal M) / real n) else 0)) [0..<n]) [0..<n]))"
proof -
  let ?s = "1 / 10 ^ 6 * (sum_list (diagonal M) / real n)"
  have d: "evaluate \<rho> (tt_true_div (tt_trace K) (shape0 K)) = Some (Scalar (sum_list (diagonal M) / real n))"
    using K n pos by (simp add: binop_scalar_scalar f_div_def)
  have m: "evaluate \<rho> (tt_mul (num (1 / 10 ^ 6)) (tt_true_div (tt_trace K) (shape0 K))) = Some (Scalar ?s)"
    using d by (simp add: evaluate_Apply2 binop_scalar_scalar f_mul_def del: evaluate.simps(3))
  have e: "evaluate \<rho> (tt_eye (shape0 K)) = Some (Mat (eye n))"
    using K n by simp
  have "binop f_mul (Scalar ?s) (Mat (eye n)) = Some (Mat (map (map (\<lambda>x. ?s * x)) (eye n)))"
    by (rule binop_scalar_mat) (simp add: f_mul_def)
  with m e have j: "evaluate \<rho> (tt_mul (tt_mul (num (1 / 10 ^ 6)) (tt_true_div (tt_trace K) (shape0 K))) (tt_eye (shape0 K)))
      = Some (Mat (map (map (\<lambda>x. ?s * x)) (eye n)))"
    by (simp add: evaluate_Apply2 del: evaluate.simps(3))
  let ?J = "map (map (\<lambda>x. ?s * x)) (eye n)"
  have "binop f_add (Mat M) (Mat ?J) = Some (Mat (map2 (map2 (+)) M ?J))"
    by (rule binop_mat_mat) (simp_all add: n rect_nth [OF r] eye_def f_add_def)
  with K j have "evaluate \<rho> (stabilize K) = Some (Mat (map2 (map2 (+)) M ?J))"
    by (simp add: stabilize_def Let_def evaluate_Apply2 del: evaluate.simps(3))
  moreover have "map2 (map2 (+)) M ?J =
     map (\<lambda>i. map (\<lambda>j. M ! i ! j + (if i = j then ?s else 0)) [0..<n]) [0..<n]"
    by (rule nth_equalityI) (auto simp: n rect_nth [OF r] eye_def intro!: nth_equalityI)
  ultimately show ?thesis by simp
qed

lemma evaluate_stabilize_cong:
  "evaluate \<rho> K = evaluate \<rho> K' \<Longrightarrow> evaluate \<rho> (stabilize K) = evaluate \<rho> (stabilize K')"
  by (simp add: stabilize_def Let_def)

subsection \<open>The posterior of the full-conjugate variant\<close>

lemma noise_sum_order:
  assumes N: "evaluate \<rho> Kns = Some (Mat N)" and S: "evaluate \<rho> Kss = Some (Mat S)"
      and Q: "evaluate \<rho> Q = Some (Mat Qm)"
      and l: "length N = s" "length S = s" "length Qm = s"
      and r: "rect s N" "rect s S" "rect s Qm"
  shows "evaluate \<rho> (tt_sub (tt_add Kns Kss) Q) = evaluate \<rho> (tt_add (tt_sub Kss Q) Kns)"
proof -
  have a: "binop f_add (Mat N) (Mat S) = Some (Mat (map2 (map2 (+)) N S))"
    by (rule binop_mat_mat) (simp_all add: l rect_nth [OF r(1)] rect_nth [OF r(2)] f_add_def)
  have b: "binop f_sub (Mat (map2 (map2 (+)) N S)) (Mat Qm) =
             Some (Mat (map2 (map2 (-)) (map2 (map2 (+)) N S) Qm))"
    by (rule binop_mat_mat) (simp_all add: l rect_nth [OF r(1)] rect_nth [OF r(2)] rect_nth [OF r(3)] f_sub_def)
  have c: "binop f_sub (Mat S) (Mat Qm) = Some (Mat (map2 (map2 (-)) S Qm))"
    by (rule binop_mat_mat) (simp_all add: l rect_nth [OF r(2)] rect_nth [OF r(3)] f_sub_def)
  have d: "binop f_add (Mat (map2 (map2 (-)) S Qm)) (Mat N) =
             Some (Mat (map2 (map2 (+)) (map2 (map2 (-)) S Qm) N))"
    by (rule binop_mat_mat) (simp_all add: l rect_nth [OF r(1)] rect_nth [OF r(2)] rect_nth [OF r(3)] f_add_def)
  have e: "map2 (map2 (-)) (map2 (map2 (+)) N S) Qm = map2 (map2 (+)) (map2 (map2 (-)) S Qm) N"
    by (rule nth_equalityI)
       (auto simp: l rect_nth [OF r(1)] rect_nth [OF r(2)] rect_nth [OF r(3)] intro!: nth_equalityI)
  show ?thesis
    using N S Q a b c d e by (simp add: evaluate_Apply2 del: evaluate.simps(3))
qed

text \<open>
  C1, amended. When \<^verbatim>\<open>conditional\<close> of the full-conjugate variant returns, the four kernel
  matrices were built, the posterior as the specification words it is built too, and with
  \<open>L = cholesky(stabilize(K(X,X)) + noise(X,X))\<close>, \<open>A = solve_lower(L, K(X,Xs))\<close> and
  \<open>V = solve_lower(L, y - mean(X))\<close>: the returned mean evaluates as \<open>mean(Xs) + A\<^sup>T V\<close>; the
  returned covariance is \<^verbatim>\<open>stabilize\<close> applied to \<open>K(Xs,Xs) - A\<^sup>T A\<close> without noise, and
  \<^verbatim>\<open>stabilize\<close> applied to \<open>noise(Xs) + K(Xs,Xs) - A\<^sup>T A\<close> with noise, which evaluates as
  \<^verbatim>\<open>stabilize\<close> of the worded covariance plus noise when the three matrices are square of
  one size.
\<close>

theorem full_conditional_posterior:
  assumes "GPFullConjugate_conditional self Xs y obs_noise = Some (mean, cov)"
  shows "\<exists>Kxx Knx Kxs Kss mean' cov'.
     call (gp_K self) (gp_X self) None False = Some Kxx \<and>
     gp_Kn self (gp_X self) = Some Knx \<and>
     call (gp_K self) (gp_X self) (Some Xs) False = Some Kxs \<and>
     call (gp_K self) Xs None False = Some Kss \<and>
     claimed_posterior self Xs y obs_noise = Some (mean', cov') \<and>
     (let L = cholesky (tt_add (stabilize Kxx) Knx);
          A = solve_lower L Kxs;
          V = solve_lower L (tt_sub y (gp_m self (gp_X self)));
          Q = tt_dot (tt_transpose A) A
      in mean' = tt_add (gp_m self Xs) (tt_dot (tt_transpose A) V) \<and>
         (\<forall>\<rho>. evaluate \<rho> mean = evaluate \<rho> mean') \<and>
         (\<not> obs_noise \<longrightarrow> cov' = tt_sub Kss Q \<and> cov = stabilize cov') \<and>
         (obs_noise \<longrightarrow>
            (\<exists>Kns. gp_Kn self Xs = Some Kns \<and> cov' = tt_add (tt_sub Kss Q) Kns \<and>
               cov = stabilize (tt_sub (tt_add Kns Kss) Q) \<and>
               (\<forall>\<rho> N S Qm s.
                  evaluate \<rho> Kns = Some (Mat N) \<and> evaluate \<rho> Kss = Some (Mat S) \<and>
                  evaluate \<rho> Q = Some (Mat Qm) \<and>
                  length N = s \<and> length S = s \<and> length Qm = s \<and>
                  rect s N \<and> rect s S \<and> rect s Qm \<longrightarrow>
                  evaluate \<rho> cov = evaluate \<rho> (stabilize cov')))))"
proof -
  from assms obtain Kxx Knx Kxs Kss where
    k: "call (gp_K self) (gp_X self) None False = Some Kxx"
       "gp_Kn self (gp_X self) = Some Knx"
       "call (gp_K self) (gp_X self) (Some Xs) False = Some Kxs"
       "call (gp_K self) Xs None False = Some Kss"
    by (auto simp: GPFullConjugate_conditional_def split: bind_splits)
  define L where "L = cholesky (tt_add (stabilize Kxx) Knx)"
  define A where "A = solve_lower L Kxs"
  define V where "V = solve_lower L (tt_sub y (gp_m self (gp_X self)))"
  define Q where "Q = tt_dot (tt_transpose A) A"
  have m: "mean = tt_add (tt_dot (tt_transpose A) V) (gp_m self Xs)"
    using assms k by (auto simp: GPFullConjugate_conditional_def Let_def L_def A_def V_def split: bind_splits if_splits)
  show ?thesis
  proof (cases obs_noise)
    case False
    with assms k have c: "cov = stabilize (tt_sub Kss Q)"
      by (auto simp: GPFullConjugate_conditional_def Let_def L_def A_def Q_def)
    have "claimed_posterior self Xs y obs_noise =
            Some (tt_add (gp_m self Xs) (tt_dot (tt_transpose A) V), tt_sub Kss Q)"
      using False k by (simp add: claimed_posterior_def Let_def L_def A_def V_def Q_def)
    with k m c False show ?thesis
      by (auto simp: Let_def L_def A_def V_def Q_def evaluate_add_commute
               simp del: evaluate.simps(3))
  next
    case True
    with assms k obtain Kns where n: "gp_Kn self Xs = Some Kns"
      and c: "cov = stabilize (tt_sub (tt_add Kns Kss) Q)"
      by (auto simp: GPFullConjugate_conditional_def Let_def L_def A_def Q_def split: bind_splits)
    have p: "claimed_posterior self Xs y obs_noise =
            Some (tt_add (gp_m self Xs) (tt_dot (tt_transpose A) V), tt_add (tt_sub Kss Q) Kns)"
      using True k n by (simp add: claimed_posterior_def Let_def L_def A_def V_def Q_def)
    have e: "\<forall>\<rho> N S Qm s.
                  evaluate \<rho> Kns = Some (Mat N) \<and> evaluate \<rho> Kss = Some (Mat S) \<and>
                  evaluate \<rho> Q = Some (Mat Qm) \<and>
                  length N = s \<and> length S = s \<and> length Qm = s \<and>
                  rect s N \<and> rect s S \<and> rect s Qm \<longrightarrow>
                  evaluate \<rho> cov = evaluate \<rho> (stabilize (tt_add (tt_sub Kss Q) Kns))"
    proof (intro allI impI)
      fix \<rho> N S Qm s
      assume h: "evaluate \<rho> Kns = Some (Mat N) \<and> evaluate \<rho> Kss = Some (Mat S) \<and>
                  evaluate \<rho> Q = Some (Mat Qm) \<and>
                  length N = s \<and> length S = s \<and> length Qm = s \<and>
                  rect s N \<and> rect s S \<and> rect s Qm"
      have "evaluate \<rho> (tt_sub (tt_add Kns Kss) Q) = evaluate \<rho> (tt_add (tt_sub Kss Q) Kns)"
        by (rule noise_sum_order [of \<rho> Kns N Kss S Q Qm s]) (use h in simp_all)
      then show "evaluate \<rho> cov = evaluate \<rho> (stabilize (tt_add (tt_sub Kss Q) Kns))"
        unfolding c by (rule evaluate_stabilize_cong)
    qed
    from k m c True n p e show ?thesis
      by (auto simp: Let_def L_def A_def V_def Q_def evaluate_add_commute
               simp del: evaluate.simps(3))
  qed
qed

lemma sqrt_25010001: "sqrt 25010001 = 5001"
  by (rule real_sqrt_unique) simp_all

lemmas gp_eval =
  GPFullConjugate_conditional_def claimed_posterior_def GPFullConjugate_init_def
  Linear_full_def Linear_common_def stabilize_def cholesky_m_def solve_with_def
  solve_lower_v_def Zero_def

lemma full_example_cov:
  "evaluate (\<lambda>_. None) (snd (the (GPFullConjugate_conditional full_example Xs_example y_example False)))
     = Some (Mat [[24010001 / 25010001 + 1 / 10 ^ 6 * (24010001 / 25010001)]])"
  by (simp add: full_example_def Xs_example_def y_example_def gp_eval tensor_eval sqrt_25010001 upt_rec)

lemma full_example_claimed_cov:
  "evaluate (\<lambda>_. None) (snd (the (claimed_posterior full_example Xs_example y_example False)))
     = Some (Mat [[24010001 / 25010001]])"
  by (simp add: full_example_def Xs_example_def y_example_def gp_eval tensor_eval sqrt_25010001 upt_rec)

text \<open>
  C1 as stated fails: the returned covariance is not \<open>K(Xs,Xs) - A\<^sup>T A\<close>. With one training
  input 1000, the linear kernel, noise standard deviation 4900 and the new input 1, the
  worded covariance is 24010001 / 25010001 and the returned one is larger by the factor
  \<open>1 + 10\<^sup>-\<^sup>6\<close>.
\<close>

theorem full_conditional_unstabilized_counterexample:
  "evaluate (\<lambda>_. None) (snd (the (GPFullConjugate_conditional full_example Xs_example y_example False)))
   \<noteq> evaluate (\<lambda>_. None) (snd (the (claimed_posterior full_example Xs_example y_example False)))"
  by (simp add: full_example_cov full_example_claimed_cov)

lemma full_example_defined:
  "\<exists>m c. GPFullConjugate_conditional full_example Xs_example y_example b = Some (m, c)"
  by (cases b) (simp_all add: full_example_def gp_eval Let_def slice_def)

theorem full_conditional_posterior_witness:
  "(\<exists>m c. GPFullConjugate_conditional full_example Xs_example y_example True = Some (m, c)) \<and>
   evaluate (\<lambda>_. None)
      (snd (the (GPFullConjugate_conditional full_example Xs_example y_example True))) =
   evaluate (\<lambda>_. None)
      (stabilize (snd (the (claimed_posterior full_example Xs_example y_example True)))) \<and>
   snd (the (GPFullConjugate_conditional full_example Xs_example y_example False)) =
   stabilize (snd (the (claimed_posterior full_example Xs_example y_example False)))"
proof -
  let ?\<rho> = "\<lambda>_ :: string. None :: tensor option"
  obtain m c where p: "GPFullConjugate_conditional full_example Xs_example y_example True = Some (m, c)"
    using full_example_defined [of True] by blast
  from full_conditional_posterior [OF p] obtain Kxx Knx Kxs Kss mean' cov' Kns where
    k: "call (gp_K full_example) (gp_X full_example) None False = Some Kxx"
       "gp_Kn full_example (gp_X full_example) = Some Knx"
       "call (gp_K full_example) (gp_X full_example) (Some Xs_example) False = Some Kxs"
       "call (gp_K full_example) Xs_example None False = Some Kss"
       "gp_Kn full_example Xs_example = Some Kns"
    and cl: "claimed_posterior full_example Xs_example y_example True = Some (mean', cov')"
    and sh: "\<And>N S Qm s.
        evaluate ?\<rho> Kns = Some (Mat N) \<Longrightarrow> evaluate ?\<rho> Kss = Some (Mat S) \<Longrightarrow>
        evaluate ?\<rho> (tt_dot (tt_transpose (solve_lower (cholesky (tt_add (stabilize Kxx) Knx)) Kxs))
                          (solve_lower (cholesky (tt_add (stabilize Kxx) Knx)) Kxs)) = Some (Mat Qm) \<Longrightarrow>
        length N = s \<Longrightarrow> length S = s \<Longrightarrow> length Qm = s \<Longrightarrow>
        rect s N \<Longrightarrow> rect s S \<Longrightarrow> rect s Qm \<Longrightarrow>
        evaluate ?\<rho> c = evaluate ?\<rho> (stabilize cov')"
    unfolding Let_def by blast
  have e1: "evaluate ?\<rho> Kns = Some (Mat [[24010000]])"
    using k(5) by (auto simp: full_example_def Xs_example_def gp_eval tensor_eval upt_rec)
  have e2: "evaluate ?\<rho> Kss = Some (Mat [[1]])"
    using k(4) by (auto simp: full_example_def Xs_example_def gp_eval tensor_eval)
  have e3: "evaluate ?\<rho> (tt_dot (tt_transpose (solve_lower (cholesky (tt_add (stabilize Kxx) Knx)) Kxs))
                          (solve_lower (cholesky (tt_add (stabilize Kxx) Knx)) Kxs))
              = Some (Mat [[1000000 / 25010001]])"
    using k(1,2,3)
    by (auto simp: full_example_def Xs_example_def gp_eval tensor_eval sqrt_25010001 upt_rec)
  have a: "evaluate ?\<rho> c = evaluate ?\<rho> (stabilize cov')"
    by (rule sh [OF e1 e2 e3, of 1]) (simp_all add: rect_def)
  obtain m2 c2 where p2: "GPFullConjugate_conditional full_example Xs_example y_example False = Some (m2, c2)"
    using full_example_defined [of False] by blast
  from full_conditional_posterior [OF p2] obtain mean2 cov2 where
    "claimed_posterior full_example Xs_example y_example False = Some (mean2, cov2)"
    "c2 = stabilize cov2"
    unfolding Let_def by auto
  with p p2 cl a show ?thesis by simp
qed

subsection \<open>What is passed to the Cholesky decomposition\<close>

lemma stabilized_stabilize [simp]: "stabilized (stabilize K)"
  by (simp add: stabilized_def stabilize_def Let_def)

lemma stabilized_plus_simp [simp]: "stabilized_plus (tt_add (stabilize K) N)"
  by (simp add: stabilized_plus_def)

lemma identity_plus_simp [simp]: "identity_plus (tt_add (tt_eye n) P)"
  by (simp add: identity_plus_def)

lemma identity_plus_not_stabilized: "\<not> stabilized (tt_add (tt_eye n) (tt_dot P Q))"
  by (simp add: stabilized_def stabilize_def Let_def)

lemma cholesky_args_stabilize [simp]:
  "chol_free K \<Longrightarrow> cholesky_args (stabilize K) = []"
  by (simp add: stabilize_def Let_def chol_free_def)

lemma chol_free_simps [simp]:
  "chol_free (T_const t)" "chol_free (T_var x n)"
  by (simp_all add: chol_free_def)

lemma nonconj_conditional_args:
  assumes "GPFullNonConjugate_conditional self Xs v = Some r"
  shows "\<exists>Kxx Kxs Kss.
     call (gp_K self) (gp_X self) None False = Some Kxx \<and>
     call (gp_K self) (gp_X self) (Some Xs) False = Some Kxs \<and>
     call (gp_K self) Xs None False = Some Kss \<and>
     (chol_free Kxx \<and> chol_free Kxs \<and> chol_free Kss \<and> chol_free v \<and> chol_free (gp_m self Xs) \<longrightarrow>
        set (result_cholesky_args (Some r)) = {stabilize Kxx})"
  using assms
  by (auto simp: GPFullNonConjugate_conditional_def result_cholesky_args_def Let_def
        chol_free_def stabilize_def split: bind_splits)

lemma RV_args:
  assumes "RV self = Some f"
  shows "\<exists>Kxx. call (gp_K self) (gp_X self) None False = Some Kxx \<and>
     (chol_free Kxx \<longrightarrow> set (cholesky_args (snd (deterministic f))) = {stabilize Kxx})"
  using assms
  by (auto simp: RV_def Let_def chol_free_def stabilize_def split: option.splits)

lemma full_conditional_args:
  assumes "GPFullConjugate_conditional self Xs y obs_noise = Some r"
  shows "\<exists>Kxx Knx Kxs Kss.
     call (gp_K self) (gp_X self) None False = Some Kxx \<and>
     gp_Kn self (gp_X self) = Some Knx \<and>
     call (gp_K self) (gp_X self) (Some Xs) False = Some Kxs \<and>
     call (gp_K self) Xs None False = Some Kss \<and>
     (chol_free Kxx \<and> chol_free Knx \<and> chol_free Kxs \<and> chol_free Kss \<and> chol_free y \<and>
      chol_free (gp_m self (gp_X self)) \<and> chol_free (gp_m self Xs) \<and>
      (\<forall>Kns. gp_Kn self Xs = Some Kns \<longrightarrow> chol_free Kns) \<longrightarrow>
        set (result_cholesky_args (Some r)) = {tt_add (stabilize Kxx) Knx})"
  using assms
  by (auto simp: GPFullConjugate_conditional_def result_cholesky_args_def Let_def
        chol_free_def stabilize_def split: bind_splits if_splits)

lemma full_logp_args:
  assumes "GPFullConjugate_logp self y = Some g"
  shows "\<exists>Kxx Knx.
     call (gp_K self) (gp_X self) None False = Some Kxx \<and>
     gp_Kn self (gp_X self) = Some Knx \<and>
     (chol_free Kxx \<and> chol_free Knx \<and> chol_free y \<and> chol_free (gp_m self (gp_X self)) \<longrightarrow>
        set (cholesky_args g) = {tt_add (stabilize Kxx) Knx})"
  using assms
  by (auto simp: GPFullConjugate_logp_def MvNormal_logp_def Let_def
        chol_free_def stabilize_def split: bind_splits if_splits)

lemma sparse_prior_args:
  assumes "GPSparseConjugate_prior self obs_noise = Some r"
  shows "\<exists>Kuu Kuf Kffd.
     call (gp_K self) (gp_Xu self) None False = Some Kuu \<and>
     call (gp_K self) (gp_Xu self) (Some (gp_X self)) False = Some Kuf \<and>
     call (gp_K self) (gp_X self) None True = Some Kffd \<and>
     (chol_free Kuu \<and> chol_free Kuf \<and> chol_free Kffd \<and> chol_free (gp_m self (gp_X self)) \<and>
      chol_free (gp_sigma2 self) \<and> chol_free (gp_nf self) \<longrightarrow>
        set (result_cholesky_args (Some r)) = {stabilize Kuu})"
  using assms
  by (auto simp: GPSparseConjugate_prior_def result_cholesky_args_def Let_def
        chol_free_def stabilize_def split: bind_splits if_splits)

lemma sparse_conditional_unfold:
  "GPSparseConjugate_conditional self Xs y obs_noise =
     (case call (gp_K self) (gp_Xu self) None False of None \<Rightarrow> None | Some Kuu \<Rightarrow>
      case call (gp_K self) (gp_Xu self) (Some (gp_X self)) False of None \<Rightarrow> None | Some Kuf \<Rightarrow>
      case sparse_Lamd self (tt_sum_axis (tt_mul (solve_lower (cholesky (stabilize Kuu)) Kuf)
                                                 (solve_lower (cholesky (stabilize Kuu)) Kuf)) 0) of
        None \<Rightarrow> None | Some Lamd \<Rightarrow>
      case call (gp_K self) (gp_Xu self) (Some Xs) False of None \<Rightarrow> None | Some Kus \<Rightarrow>
      case call (gp_K self) Xs (Some Xs) False of None \<Rightarrow> None | Some Kss \<Rightarrow>
        Some (let Luu = cholesky (stabilize Kuu);
                  A = solve_lower Luu Kuf;
                  A_l = tt_true_div A Lamd;
                  L_B = cholesky (tt_add (tt_eye (gp_nu self)) (tt_dot A_l (tt_transpose A)));
                  r = tt_sub y (gp_m self (gp_X self));
                  r_l = tt_true_div r Lamd;
                  c = solve_lower L_B (tt_dot A r_l);
                  As = solve_lower Luu Kus;
                  mean = tt_dot (tt_transpose As) (solve_upper (tt_transpose L_B) c);
                  C = solve_lower L_B As;
                  cov = (if obs_noise
                         then tt_add (tt_add (tt_sub Kss (tt_dot (tt_transpose As) As))
                                             (tt_dot (tt_transpose C) C))
                                     (tt_mul (gp_sigma2 self) (tt_eye (shape0 Xs)))
                         else tt_add (tt_sub Kss (tt_dot (tt_transpose As) As))
                                     (tt_dot (tt_transpose C) C))
              in (mean, stabilize cov)))"
  by (simp add: GPSparseConjugate_conditional_def sparse_Lamd_def Let_def
           split: option.splits bind_splits)

lemma sparse_logp_unfold:
  "GPSparseConjugate_logp self y =
     (case call (gp_K self) (gp_Xu self) (Some (gp_Xu self)) False of None \<Rightarrow> None | Some Kuu \<Rightarrow>
      case call (gp_K self) (gp_Xu self) (Some (gp_X self)) False of None \<Rightarrow> None | Some Kuf \<Rightarrow>
      case sparse_Lamd self (tt_sum_axis (tt_mul (solve_lower (cholesky (stabilize Kuu)) Kuf)
                                                 (solve_lower (cholesky (stabilize Kuu)) Kuf)) 0) of
        None \<Rightarrow> None | Some Lamd \<Rightarrow>
      case sparse_trace self (solve_lower (cholesky (stabilize Kuu)) Kuf) of
        None \<Rightarrow> None | Some trace \<Rightarrow>
        Some (let Luu = cholesky (stabilize Kuu);
                  A = solve_lower Luu Kuf;
                  A_l = tt_true_div A Lamd;
                  L_B = cholesky (tt_add (tt_eye (gp_nu self)) (tt_dot A_l (tt_transpose A)));
                  r = tt_sub y (gp_m self (gp_X self));
                  r_l = tt_true_div r Lamd;
                  c = solve_lower L_B (tt_dot A r_l);
                  constant = tt_mul (tt_mul (num (1 / 2)) (gp_nf self)) (tt_log (num (2 * pi)));
                  logdet = tt_add (tt_mul (num (1 / 2)) (tt_sum (tt_log Lamd)))
                                  (tt_sum (tt_log (tt_diag L_B)));
                  quadratic = tt_mul (num (1 / 2)) (tt_sub (tt_dot r r_l) (tt_dot c c))
              in tt_mul (num (- 1)) (tt_add (tt_add (tt_add constant logdet) quadratic) trace)))"
  by (simp add: GPSparseConjugate_logp_def sparse_Lamd_def sparse_trace_def Let_def
           split: option.splits bind_splits)

lemma sparse_Lamd_args:
  "sparse_Lamd self Qffd = Some Lamd \<Longrightarrow>
   \<forall>Kffd. call (gp_K self) (gp_X self) None True = Some Kffd \<longrightarrow> chol_free Kffd \<Longrightarrow>
   chol_free (gp_sigma2 self) \<Longrightarrow>
   set (cholesky_args Lamd) \<subseteq> set (cholesky_args Qffd)"
  by (auto simp: sparse_Lamd_def chol_free_def split: if_splits option.splits)

lemma sparse_trace_args:
  "sparse_trace self A = Some trace \<Longrightarrow>
   \<forall>Kffd. call (gp_K self) (gp_X self) None True = Some Kffd \<longrightarrow> chol_free Kffd \<Longrightarrow>
   chol_free (gp_sigma2 self) \<Longrightarrow>
   set (cholesky_args trace) \<subseteq> set (cholesky_args A)"
  by (auto simp: sparse_trace_def chol_free_def split: if_splits option.splits)

lemma sparse_conditional_args:
  assumes "GPSparseConjugate_conditional self Xs y obs_noise = Some r"
  shows "\<exists>Kuu Kuf Kus Kss Lamd.
     call (gp_K self) (gp_Xu self) None False = Some Kuu \<and>
     call (gp_K self) (gp_Xu self) (Some (gp_X self)) False = Some Kuf \<and>
     call (gp_K self) (gp_Xu self) (Some Xs) False = Some Kus \<and>
     call (gp_K self) Xs (Some Xs) False = Some Kss \<and>
     (plain [Kuu, Kuf, Kus, Kss, Xs, y, gp_m self (gp_X self), gp_sigma2 self, gp_nu self] \<and>
      (\<forall>Kffd. call (gp_K self) (gp_X self) None True = Some Kffd \<longrightarrow> chol_free Kffd) \<longrightarrow>
        (let A = solve_lower (cholesky (stabilize Kuu)) Kuf
         in set (result_cholesky_args (Some r)) =
              {stabilize Kuu,
               tt_add (tt_eye (gp_nu self)) (tt_dot (tt_true_div A Lamd) (tt_transpose A))}))"
proof -
  let ?Q = "\<lambda>Kuu Kuf. tt_sum_axis (tt_mul (solve_lower (cholesky (stabilize Kuu)) Kuf)
                                         (solve_lower (cholesky (stabilize Kuu)) Kuf)) 0"
  from assms obtain Kuu Kuf Kus Kss Lamd where
    k: "call (gp_K self) (gp_Xu self) None False = Some Kuu"
       "call (gp_K self) (gp_Xu self) (Some (gp_X self)) False = Some Kuf"
       "call (gp_K self) (gp_Xu self) (Some Xs) False = Some Kus"
       "call (gp_K self) Xs (Some Xs) False = Some Kss"
    and l: "sparse_Lamd self (?Q Kuu Kuf) = Some Lamd"
    unfolding sparse_conditional_unfold by (auto split: option.splits)
  have r: "r = (let Luu = cholesky (stabilize Kuu);
                  A = solve_lower Luu Kuf;
                  A_l = tt_true_div A Lamd;
                  L_B = cholesky (tt_add (tt_eye (gp_nu self)) (tt_dot A_l (tt_transpose A)));
                  r = tt_sub y (gp_m self (gp_X self));
                  r_l = tt_true_div r Lamd;
                  c = solve_lower L_B (tt_dot A r_l);
                  As = solve_lower Luu Kus;
                  mean = tt_dot (tt_transpose As) (solve_upper (tt_transpose L_B) c);
                  C = solve_lower L_B As;
                  cov = (if obs_noise
                         then tt_add (tt_add (tt_sub Kss (tt_dot (tt_transpose As) As))
                                             (tt_dot (tt_transpose C) C))
                                     (tt_mul (gp_sigma2 self) (tt_eye (shape0 Xs)))
                         else tt_add (tt_sub Kss (tt_dot (tt_transpose As) As))
                                     (tt_dot (tt_transpose C) C))
              in (mean, stabilize cov))"
    using assms k l by (simp add: sparse_conditional_unfold)
  have "plain [Kuu, Kuf, Kus, Kss, Xs, y, gp_m self (gp_X self), gp_sigma2 self, gp_nu self] \<and>
      (\<forall>Kffd. call (gp_K self) (gp_X self) None True = Some Kffd \<longrightarrow> chol_free Kffd) \<longrightarrow>
        (let A = solve_lower (cholesky (stabilize Kuu)) Kuf
         in set (result_cholesky_args (Some r)) =
              {stabilize Kuu,
               tt_add (tt_eye (gp_nu self)) (tt_dot (tt_true_div A Lamd) (tt_transpose A))})"
  proof (intro impI)
    assume h: "plain [Kuu, Kuf, Kus, Kss, Xs, y, gp_m self (gp_X self), gp_sigma2 self, gp_nu self] \<and>
      (\<forall>Kffd. call (gp_K self) (gp_X self) None True = Some Kffd \<longrightarrow> chol_free Kffd)"
    have c: "cholesky_args (stabilize Kuu) = []"
      using h by (simp add: plain_def)
    have "set (cholesky_args Lamd) \<subseteq> set (cholesky_args (?Q Kuu Kuf))"
      using h by (intro sparse_Lamd_args [OF l]) (simp_all add: plain_def)
    then have s: "set (cholesky_args Lamd) \<subseteq> {stabilize Kuu}"
      using h c by (auto simp: plain_def chol_free_def)
    show "let A = solve_lower (cholesky (stabilize Kuu)) Kuf
         in set (result_cholesky_args (Some r)) =
              {stabilize Kuu,
               tt_add (tt_eye (gp_nu self)) (tt_dot (tt_true_div A Lamd) (tt_transpose A))}"
      using r h s c
      by (cases obs_noise)
         (auto simp: result_cholesky_args_def Let_def plain_def chol_free_def stabilize_def)
  qed
  with k show ?thesis by blast
qed

lemma sparse_logp_args:
  assumes "GPSparseConjugate_logp self y = Some g"
  shows "\<exists>Kuu Kuf Lamd.
     call (gp_K self) (gp_Xu self) (Some (gp_Xu self)) False = Some Kuu \<and>
     call (gp_K self) (gp_Xu self) (Some (gp_X self)) False = Some Kuf \<and>
     (plain [Kuu, Kuf, y, gp_m self (gp_X self), gp_sigma2 self, gp_nu self, gp_nf self] \<and>
      (\<forall>Kffd. call (gp_K self) (gp_X self) None True = Some Kffd \<longrightarrow> chol_free Kffd) \<longrightarrow>
        (let A = solve_lower (cholesky (stabilize Kuu)) Kuf
         in set (cholesky_args g) =
              {stabilize Kuu,
               tt_add (tt_eye (gp_nu self)) (tt_dot (tt_true_div A Lamd) (tt_transpose A))}))"
proof -
  let ?A = "\<lambda>Kuu Kuf. solve_lower (cholesky (stabilize Kuu)) Kuf"
  let ?Q = "\<lambda>Kuu Kuf. tt_sum_axis (tt_mul (?A Kuu Kuf) (?A Kuu Kuf)) 0"
  from assms obtain Kuu Kuf Lamd trace where
    k: "call (gp_K self) (gp_Xu self) (Some (gp_Xu self)) False = Some Kuu"
       "call (gp_K self) (gp_Xu self) (Some (gp_X self)) False = Some Kuf"
    and l: "sparse_Lamd self (?Q Kuu Kuf) = Some Lamd"
    and t: "sparse_trace self (?A Kuu Kuf) = Some trace"
    unfolding sparse_logp_unfold by (auto split: option.splits)
  have g: "g = (let Luu = cholesky (stabilize Kuu);
                  A = solve_lower Luu Kuf;
                  A_l = tt_true_div A Lamd;
                  L_B = cholesky (tt_add (tt_eye (gp_nu self)) (tt_dot A_l (tt_transpose A)));
                  r = tt_sub y (gp_m self (gp_X self));
                  r_l = tt_true_div r Lamd;
                  c = solve_lower L_B (tt_dot A r_l);
                  constant = tt_mul (tt_mul (num (1 / 2)) (gp_nf self)) (tt_log (num (2 * pi)));
                  logdet = tt_add (tt_mul (num (1 / 2)) (tt_sum (tt_log Lamd)))
                                  (tt_sum (tt_log (tt_diag L_B)));
                  quadratic = tt_mul (num (1 / 2)) (tt_sub (tt_dot r r_l) (tt_dot c c))
              in tt_mul (num (- 1)) (tt_add (tt_add (tt_add constant logdet) quadratic) trace))"
    using assms k l t by (simp add: sparse_logp_unfold)
  have "plain [Kuu, Kuf, y, gp_m self (gp_X self), gp_sigma2 self, gp_nu self, gp_nf self] \<and>
      (\<forall>Kffd. call (gp_K self) (gp_X self) None True = Some Kffd \<longrightarrow> chol_free Kffd) \<longrightarrow>
        (let A = solve_lower (cholesky (stabilize Kuu)) Kuf
         in set (cholesky_args g) =
              {stabilize Kuu,
               tt_add (tt_eye (gp_nu self)) (tt_dot (tt_true_div A Lamd) (tt_transpose A))})"
  proof (intro impI)
    assume h: "plain [Kuu, Kuf, y, gp_m self (gp_X self), gp_sigma2 self, gp_nu self, gp_nf self] \<and>
      (\<forall>Kffd. call (gp_K self) (gp_X self) None True = Some Kffd \<longrightarrow> chol_free Kffd)"
    have c: "cholesky_args (stabilize Kuu) = []"
      using h by (simp add: plain_def)
    have "set (cholesky_args Lamd) \<subseteq> set (cholesky_args (?Q Kuu Kuf))"
      using h by (intro sparse_Lamd_args [OF l]) (simp_all add: plain_def)
    then have s: "set (cholesky_args Lamd) \<subseteq> {stabilize Kuu}"
      using h c by (auto simp: plain_def chol_free_def)
    have "set (cholesky_args trace) \<subseteq> set (cholesky_args (?A Kuu Kuf))"
      using h by (intro sparse_trace_args [OF t]) (simp_all add: plain_def)
    then have s2: "set (cholesky_args trace) \<subseteq> {stabilize Kuu}"
      using h c by (auto simp: plain_def chol_free_def)
    show "let A = solve_lower (cholesky (stabilize Kuu)) Kuf
         in set (cholesky_args g) =
              {stabilize Kuu,
               tt_add (tt_eye (gp_nu self)) (tt_dot (tt_true_div A Lamd) (tt_transpose A))}"
      using g h s s2 c
      by (auto simp: Let_def plain_def chol_free_def stabilize_def)
  qed
  with k show ?thesis by blast
qed

text \<open>
  C3, amended. \<^verbatim>\<open>stabilize(K)\<close> evaluates to \<open>K + 10\<^sup>-\<^sup>6 (trace(K) / n) I\<close> for an \<open>n\<close> by \<open>n\<close>
  matrix with \<open>n > 0\<close>. In the results of \<^verbatim>\<open>conditional\<close> of the three variants and of
  \<^verbatim>\<open>logp\<close> of the sparse one, when the inputs hold no decomposition of their own, the
  matrices passed to \<^verbatim>\<open>cholesky\<close> are exactly these: \<open>stabilize(K(X,X))\<close> in the
  non-conjugate variant; \<open>stabilize(K(X,X)) + noise(X,X)\<close> in the full-conjugate one (the
  kernel matrix is stabilized, the noise is added afterwards); \<open>stabilize(K(Xu,Xu))\<close> and
  \<open>I + A_l A\<^sup>T\<close> in the sparse one. The first kind is a result of \<^verbatim>\<open>stabilize\<close>; the
  last kind never is.
\<close>

theorem cholesky_arguments:
  "(evaluate \<rho> K = Some (Mat M) \<and> length M = n \<and> rect n M \<and> 0 < n \<longrightarrow>
      evaluate \<rho> (stabilize K) =
        Some (Mat (map (\<lambda>i. map (\<lambda>j. M ! i ! j +
           (if i = j then 1 / 10 ^ 6 * (sum_list (diagonal M) / real n) else 0)) [0..<n]) [0..<n]))) \<and>
   (\<forall>r. GPFullNonConjugate_conditional nc Xs v = Some r \<longrightarrow>
      (\<exists>Kxx Kxs Kss.
         call (gp_K nc) (gp_X nc) None False = Some Kxx \<and>
         call (gp_K nc) (gp_X nc) (Some Xs) False = Some Kxs \<and>
         call (gp_K nc) Xs None False = Some Kss \<and>
         (plain [Kxx, Kxs, Kss, v, gp_m nc Xs] \<longrightarrow>
            set (result_cholesky_args (Some r)) = {stabilize Kxx}))) \<and>
   (\<forall>r. GPFullConjugate_conditional fc Xs y obs_noise = Some r \<longrightarrow>
      (\<exists>Kxx Knx Kxs Kss.
         call (gp_K fc) (gp_X fc) None False = Some Kxx \<and>
         gp_Kn fc (gp_X fc) = Some Knx \<and>
         call (gp_K fc) (gp_X fc) (Some Xs) False = Some Kxs \<and>
         call (gp_K fc) Xs None False = Some Kss \<and>
         (plain [Kxx, Knx, Kxs, Kss, y, gp_m fc (gp_X fc), gp_m fc Xs] \<and>
          (\<forall>Kns. gp_Kn fc Xs = Some Kns \<longrightarrow> chol_free Kns) \<longrightarrow>
            set (result_cholesky_args (Some r)) = {tt_add (stabilize Kxx) Knx}))) \<and>
   (\<forall>r. GPSparseConjugate_conditional sc Xs y obs_noise = Some r \<longrightarrow>
      (\<exists>Kuu Kuf Kus Kss Lamd.
         call (gp_K sc) (gp_Xu sc) None False = Some Kuu \<and>
         call (gp_K sc) (gp_Xu sc) (Some (gp_X sc)) False = Some Kuf \<and>
         call (gp_K sc) (gp_Xu sc) (Some Xs) False = Some Kus \<and>
         call (gp_K sc) Xs (Some Xs) False = Some Kss \<and>
         (plain [Kuu, Kuf, Kus, Kss, Xs, y, gp_m sc (gp_X sc), gp_sigma2 sc, gp_nu sc] \<and>
          (\<forall>Kffd. call (gp_K sc) (gp_X sc) None True = Some Kffd \<longrightarrow> chol_free Kffd) \<longrightarrow>
            (let A = solve_lower (cholesky (stabilize Kuu)) Kuf
             in set (result_cholesky_args (Some r)) =
                  {stabilize Kuu,
                   tt_add (tt_eye (gp_nu sc)) (tt_dot (tt_true_div A Lamd) (tt_transpose A))})))) \<and>
   (\<forall>g. GPSparseConjugate_logp sc y = Some g \<longrightarrow>
      (\<exists>Kuu Kuf Lamd.
         call (gp_K sc) (gp_Xu sc) (Some (gp_Xu sc)) False = Some Kuu \<and>
         call (gp_K sc) (gp_Xu sc) (Some (gp_X sc)) False = Some Kuf \<and>
         (plain [Kuu, Kuf, y, gp_m sc (gp_X sc), gp_sigma2 sc, gp_nu sc, gp_nf sc] \<and>
          (\<forall>Kffd. call (gp_K sc) (gp_X sc) None True = Some Kffd \<longrightarrow> chol_free Kffd) \<longrightarrow>
            (let A = solve_lower (cholesky (stabilize Kuu)) Kuf
             in set (cholesky_args g) =
                  {stabilize Kuu,
                   tt_add (tt_eye (gp_nu sc)) (tt_dot (tt_true_div A Lamd) (tt_transpose A))})))) \<and>
   (\<forall>G. stabilized (stabilize G)) \<and>
   (\<forall>k P Q. \<not> stabilized (tt_add (tt_eye k) (tt_dot P Q)))"
proof (intro conjI allI impI)
  assume "evaluate \<rho> K = Some (Mat M) \<and> length M = n \<and> rect n M \<and> 0 < n"
  then show "evaluate \<rho> (stabilize K) =
        Some (Mat (map (\<lambda>i. map (\<lambda>j. M ! i ! j +
           (if i = j then 1 / 10 ^ 6 * (sum_list (diagonal M) / real n) else 0)) [0..<n]) [0..<n]))"
    using stabilize_value [of \<rho> K M n] by blast
next
  fix r assume h: "GPFullNonConjugate_conditional nc Xs v = Some r"
  from nonconj_conditional_args [OF h]
  show "\<exists>Kxx Kxs Kss.
         call (gp_K nc) (gp_X nc) None False = Some Kxx \<and>
         call (gp_K nc) (gp_X nc) (Some Xs) False = Some Kxs \<and>
         call (gp_K nc) Xs None False = Some Kss \<and>
         (plain [Kxx, Kxs, Kss, v, gp_m nc Xs] \<longrightarrow>
            set (result_cholesky_args (Some r)) = {stabilize Kxx})"
    by (simp add: plain_def)
next
  fix r assume h: "GPFullConjugate_conditional fc Xs y obs_noise = Some r"
  from full_conditional_args [OF h]
  show "\<exists>Kxx Knx Kxs Kss.
         call (gp_K fc) (gp_X fc) None False = Some Kxx \<and>
         gp_Kn fc (gp_X fc) = Some Knx \<and>
         call (gp_K fc) (gp_X fc) (Some Xs) False = Some Kxs \<and>
         call (gp_K fc) Xs None False = Some Kss \<and>
         (plain [Kxx, Knx, Kxs, Kss, y, gp_m fc (gp_X fc), gp_m fc Xs] \<and>
          (\<forall>Kns. gp_Kn fc Xs = Some Kns \<longrightarrow> chol_free Kns) \<longrightarrow>
            set (result_cholesky_args (Some r)) = {tt_add (stabilize Kxx) Knx})"
    by (simp add: plain_def)
next
  fix r assume h: "GPSparseConjugate_conditional sc Xs y obs_noise = Some r"
  from sparse_conditional_args [OF h]
  show "\<exists>Kuu Kuf Kus Kss Lamd.
         call (gp_K sc) (gp_Xu sc) None False = Some Kuu \<and>
         call (gp_K sc) (gp_Xu sc) (Some (gp_X sc)) False = Some Kuf \<and>
         call (gp_K sc) (gp_Xu sc) (Some Xs) False = Some Kus \<and>
         call (gp_K sc) Xs (Some Xs) False = Some Kss \<and>
         (plain [Kuu, Kuf, Kus, Kss, Xs, y, gp_m sc (gp_X sc), gp_sigma2 sc, gp_nu sc] \<and>
          (\<forall>Kffd. call (gp_K sc) (gp_X sc) None True = Some Kffd \<longrightarrow> chol_free Kffd) \<longrightarrow>
            (let A = solve_lower (cholesky (stabilize Kuu)) Kuf
             in set (result_cholesky_args (Some r)) =
                  {stabilize Kuu,
                   tt_add (tt_eye (gp_nu sc)) (tt_dot (tt_true_div A Lamd) (tt_transpose A))}))" .
next
  fix g assume h: "GPSparseConjugate_logp sc y = Some g"
  from sparse_logp_args [OF h]
  show "\<exists>Kuu Kuf Lamd.
         call (gp_K sc) (gp_Xu sc) (Some (gp_Xu sc)) False = Some Kuu \<and>
         call (gp_K sc) (gp_Xu sc) (Some (gp_X sc)) False = Some Kuf \<and>
         (plain [Kuu, Kuf, y, gp_m sc (gp_X sc), gp_sigma2 sc, gp_nu sc, gp_nf sc] \<and>
          (\<forall>Kffd. call (gp_K sc) (gp_X sc) None True = Some Kffd \<longrightarrow> chol_free Kffd) \<longrightarrow>
            (let A = solve_lower (cholesky (stabilize Kuu)) Kuf
             in set (cholesky_args g) =
                  {stabilize Kuu,
                   tt_add (tt_eye (gp_nu sc)) (tt_dot (tt_true_div A Lamd) (tt_transpose A))}))" .
next
  fix G show "stabilized (stabilize G)" by simp
next
  fix k P Q show "\<not> stabilized (tt_add (tt_eye k) (tt_dot P Q))"
    by (rule identity_plus_not_stabilized)
qed

lemmas sparse_eval =
  GPSparseConjugate_logp_def GPSparseConjugate_conditional_def GPSparseConjugate_init_def
  GPFullNonConjugate_conditional_def GPFullNonConjugate_init_def
  Linear_full_def Linear_diag_def Linear_common_def Zero_def slice_def Let_def

text \<open>
  C3 as stated fails: in \<^verbatim>\<open>logp\<close> of a sparse GP (one training input, one inducing
  point, the linear kernel) an argument of \<^verbatim>\<open>cholesky\<close> is not a result of \<^verbatim>\<open>stabilize\<close>.
\<close>

theorem cholesky_unstabilized_counterexample:
  "\<not> list_all stabilized (graph_cholesky_args (GPSparseConjugate_logp sparse_example y_example))"
  by (simp add: graph_cholesky_args_def sparse_example_def y_example_def sparse_eval
        stabilized_def stabilize_def)

lemma full_unstabilized:
  "\<not> list_all stabilized
       (result_cholesky_args (GPFullConjugate_conditional full_example Xs_example y_example False))"
  by (simp add: result_cholesky_args_def full_example_def Xs_example_def y_example_def gp_eval
        slice_def Let_def stabilized_def stabilize_def)

lemmas kernel_graphs =
  ExpQuad_full_def square_dist_def Stationary_diag_def Linear_full_def Linear_diag_def
  Linear_common_def slice_def Let_def Zero_def

theorem cholesky_arguments_witness:
  "evaluate (\<lambda>_. None) (stabilize (T_const (Mat [[1, 2], [3, 4]]))) =
     Some (Mat [[1 + 1 / 10 ^ 6 * (5 / 2), 2], [3, 4 + 1 / 10 ^ 6 * (5 / 2)]]) \<and>
   set (result_cholesky_args
          (GPFullNonConjugate_conditional nonconj_example Xs_example (T_var ''f_rotated_'' 1))) =
     {stabilize (the (call (gp_K nonconj_example) (gp_X nonconj_example) None False))} \<and>
   set (result_cholesky_args (GPFullConjugate_conditional full_example Xs_example y_example True)) =
     {tt_add (stabilize (the (call (gp_K full_example) (gp_X full_example) None False)))
             (the (gp_Kn full_example (gp_X full_example)))} \<and>
   list_all (\<lambda>g. stabilized g \<or> identity_plus g)
     (result_cholesky_args (GPSparseConjugate_conditional sparse_example Xs_example y_example True)) \<and>
   list_all (\<lambda>g. stabilized g \<or> identity_plus g)
     (graph_cholesky_args (GPSparseConjugate_logp sparse_example y_example))"
proof -
  let ?v = "T_var ''f_rotated_'' 1"
  note T = cholesky_arguments [of "\<lambda>_. None" "T_const (Mat [[1, 2], [3, 4]])" "[[1, 2], [3, 4]]" 2
      nonconj_example Xs_example ?v full_example y_example True sparse_example]
  have a: "evaluate (\<lambda>_. None) (stabilize (T_const (Mat [[1, 2], [3, 4]]))) =
     Some (Mat [[1 + 1 / 10 ^ 6 * (5 / 2), 2], [3, 4 + 1 / 10 ^ 6 * (5 / 2)]])"
    using T [THEN conjunct1] by (simp add: rect_def ncols_def diagonal_def upt_rec)
  obtain r1 where r1: "GPFullNonConjugate_conditional nonconj_example Xs_example ?v = Some r1"
    by (simp add: nonconj_example_def sparse_eval)
  from T [THEN conjunct2, THEN conjunct1, rule_format, OF r1]
  have b: "set (result_cholesky_args (Some r1)) =
     {stabilize (the (call (gp_K nonconj_example) (gp_X nonconj_example) None False))}"
    by (auto simp: plain_def chol_free_def nonconj_example_def Xs_example_def
          GPFullNonConjugate_init_def kernel_graphs)
  obtain r2 where r2: "GPFullConjugate_conditional full_example Xs_example y_example True = Some r2"
    using full_example_defined [of True] by auto
  from T [THEN conjunct2, THEN conjunct2, THEN conjunct1, rule_format, OF r2]
  have c: "set (result_cholesky_args (Some r2)) =
     {tt_add (stabilize (the (call (gp_K full_example) (gp_X full_example) None False)))
             (the (gp_Kn full_example (gp_X full_example)))}"
    by (auto simp: plain_def chol_free_def full_example_def Xs_example_def y_example_def
          GPFullConjugate_init_def kernel_graphs)
  obtain r3 where r3: "GPSparseConjugate_conditional sparse_example Xs_example y_example True = Some r3"
    by (simp add: sparse_example_def sparse_eval)
  from T [THEN conjunct2, THEN conjunct2, THEN conjunct2, THEN conjunct1, rule_format, OF r3]
  have d: "list_all (\<lambda>g. stabilized g \<or> identity_plus g) (result_cholesky_args (Some r3))"
    by (auto simp: plain_def chol_free_def sparse_example_def Xs_example_def y_example_def
          GPSparseConjugate_init_def kernel_graphs list_all_iff)
  obtain g4 where g4: "GPSparseConjugate_logp sparse_example y_example = Some g4"
    by (simp add: sparse_example_def sparse_eval)
  from T [THEN conjunct2, THEN conjunct2, THEN conjunct2, THEN conjunct2, THEN conjunct1,
          rule_format, OF g4]
  have e: "list_all (\<lambda>g. stabilized g \<or> identity_plus g) (cholesky_args g4)"
    by (auto simp: plain_def chol_free_def sparse_example_def Xs_example_def y_example_def
          GPSparseConjugate_init_def kernel_graphs list_all_iff)
  from a b c d e r1 r2 r3 g4 show ?thesis
    by (simp add: graph_cholesky_args_def)
qed

subsection \<open>Stationary kernels on the diagonal\<close>




lemma rectI: "(\<And>r. r \<in> set M \<Longrightarrow> length r = c) \<Longrightarrow> rect c M"
  by (simp add: rect_def list_all_iff)




















lemma pw_diag:
  "pw \<rho> g S f \<Longrightarrow> \<exists>F. evaluate \<rho> g = Some (Mat F) \<and> length F = length S \<and>
     (\<forall>i < length S. i < length (S ! i) \<longrightarrow> F ! i ! i = f (S ! i ! i))"
  by (simp add: pw_def)

lemma evaluate_num [simp]: "evaluate \<rho> (num c) = Some (Scalar c)"
  by simp
























subsection \<open>The marginal likelihood of the sparse variant\<close>

lemma map_ln_value:
  "\<forall>x \<in> set v. 0 < x \<Longrightarrow> unop f_log (Vec v) = Some (Vec (map ln v))"
  by (rule unop_vec) (simp add: f_log_def)

lemma logp_graph_value:
  assumes nf: "evaluate \<rho> nf = Some (Scalar n)"
      and L: "evaluate \<rho> Lamd = Some (Vec lam)" and lpos: "\<forall>x \<in> set lam. 0 < x"
      and B: "evaluate \<rho> L_B = Some (Mat LB)" and bpos: "\<forall>x \<in> set (diagonal LB). 0 < x"
      and r: "evaluate \<rho> r = Some (Vec rv)" and len: "length rv = length lam"
      and c: "evaluate \<rho> c = Some (Vec cv)"
      and t: "evaluate \<rho> trace = Some (Scalar t)"
  shows "evaluate \<rho>
           (tt_mul (num (- 1))
              (tt_add
                 (tt_add
                    (tt_add (tt_mul (tt_mul (num (1 / 2)) nf) (tt_log (num (2 * pi))))
                       (tt_add (tt_mul (num (1 / 2)) (tt_sum (tt_log Lamd)))
                               (tt_sum (tt_log (tt_diag L_B)))))
                    (tt_mul (num (1 / 2)) (tt_sub (tt_dot r (tt_true_div r Lamd)) (tt_dot c c))))
                 trace))
         = Some (Scalar (- (1 / 2 * n * ln (2 * pi)
                            + (1 / 2 * sum_list (map ln lam) + sum_list (map ln (diagonal LB)))
                            + 1 / 2 * (dotp rv (map2 (/) rv lam) - dotp cv cv) + t)))"
proof -
  have nz: "\<And>i. i < length rv \<Longrightarrow> lam ! i \<noteq> 0"
    using lpos len by (metis less_irrefl nth_mem)
  have d: "binop f_div (Vec rv) (Vec lam) = Some (Vec (map2 (/) rv lam))"
    by (rule binop_vec_vec [OF len]) (simp add: f_div_def nz)
  have rl: "evaluate \<rho> (tt_true_div r Lamd) = Some (Vec (map2 (/) rv lam))"
    using r L d by (simp add: evaluate_Apply2 del: evaluate.simps(3))
  have rr: "evaluate \<rho> (tt_dot r (tt_true_div r Lamd)) = Some (Scalar (dotp rv (map2 (/) rv lam)))"
    using r rl len by (simp add: evaluate_Apply2 dot_def del: evaluate.simps(3))
  have cc: "evaluate \<rho> (tt_dot c c) = Some (Scalar (dotp cv cv))"
    using c by (simp add: evaluate_Apply2 dot_def del: evaluate.simps(3))
  have sl: "evaluate \<rho> (tt_sum (tt_log Lamd)) = Some (Scalar (sum_list (map ln lam)))"
    using L map_ln_value [OF lpos] by (simp add: evaluate_Apply1 flat_def del: evaluate.simps(3))
  have sb: "evaluate \<rho> (tt_sum (tt_log (tt_diag L_B))) = Some (Scalar (sum_list (map ln (diagonal LB))))"
    using B map_ln_value [OF bpos] by (simp add: evaluate_Apply1 flat_def del: evaluate.simps(3))
  have lg: "evaluate \<rho> (tt_log (num (2 * pi))) = Some (Scalar (ln (2 * pi)))"
    by (simp add: f_log_def)
  show ?thesis
    using nf rr cc sl sb lg t
    by (simp add: evaluate_Apply2 binop_scalar_scalar f_mul_def f_add_def f_sub_def
             del: evaluate.simps(3))
qed

lemma fitc_Lamd_value:
  assumes K: "evaluate \<rho> Kffd = Some (Vec kd)" and Q: "evaluate \<rho> Qffd = Some (Vec qd)"
      and len: "length kd = length qd" and s: "evaluate \<rho> sigma2 = Some (Scalar s2)"
  shows "evaluate \<rho> (tt_add (tt_clip (tt_sub Kffd Qffd) 0 None) sigma2)
         = Some (Vec (map2 (\<lambda>k q. max 0 (k - q) + s2) kd qd))"
proof -
  have 1: "binop f_sub (Vec kd) (Vec qd) = Some (Vec (map2 (-) kd qd))"
    by (rule binop_vec_vec [OF len]) (simp add: f_sub_def)
  have 2: "unop (f_clip 0 None) (Vec (map2 (-) kd qd)) = Some (Vec (map (max 0) (map2 (-) kd qd)))"
    by (rule unop_vec) (simp add: f_clip_def)
  have 3: "binop f_add (Vec (map (max 0) (map2 (-) kd qd))) (Scalar s2)
           = Some (Vec (map (\<lambda>x. x + s2) (map (max 0) (map2 (-) kd qd))))"
    by (rule binop_vec_scalar) (simp add: f_add_def)
  have 4: "map (\<lambda>x. x + s2) (map (max 0) (map2 (-) kd qd)) = map2 (\<lambda>k q. max 0 (k - q) + s2) kd qd"
    by (simp add: comp_def case_prod_beta)
  show ?thesis
    using K Q s 1 2 3 unfolding 4 [symmetric]
    by (simp add: evaluate_Apply2 evaluate_Apply1 del: evaluate.simps(3))
qed

lemma vfe_Lamd_value:
  assumes Q: "evaluate \<rho> Qffd = Some (Vec qd)" and s: "evaluate \<rho> sigma2 = Some (Scalar s2)"
  shows "evaluate \<rho> (tt_mul (tt_ones_like Qffd) sigma2) = Some (Vec (map (\<lambda>q. s2) qd))"
proof -
  have 1: "unop (\<lambda>_. Some 1) (Vec qd) = Some (Vec (map (\<lambda>q. 1) qd))"
    by (rule unop_vec) simp
  have 2: "binop f_mul (Vec (map (\<lambda>q. 1) qd)) (Scalar s2)
           = Some (Vec (map (\<lambda>x. x * s2) (map (\<lambda>q. 1) qd)))"
    by (rule binop_vec_scalar) (simp add: f_mul_def)
  show ?thesis
    using Q s 1 2 by (simp add: evaluate_Apply2 evaluate_Apply1 comp_def del: evaluate.simps(3))
qed

lemma vfe_trace_value:
  assumes K: "evaluate \<rho> Kffd = Some (Vec kd)" and Q: "evaluate \<rho> Qffd = Some (Vec qd)"
      and s: "evaluate \<rho> sigma2 = Some (Scalar s2)" and nz: "s2 \<noteq> 0"
  shows "evaluate \<rho> (tt_mul (tt_true_div (num 1) (tt_mul (num 2) sigma2))
                               (tt_sub (tt_sum Kffd) (tt_sum Qffd)))
         = Some (Scalar (1 / (2 * s2) * (sum_list kd - sum_list qd)))"
  using K Q s nz
  by (simp add: evaluate_Apply2 evaluate_Apply1 binop_scalar_scalar f_mul_def f_div_def f_sub_def
        flat_def del: evaluate.simps(3))

lemma sparse_logp_returns:
  "(\<exists>lp. GPSparseConjugate_logp self y = Some lp) \<longleftrightarrow>
     (gp_approx self = ''FITC'' \<or> gp_approx self = ''VFE'') \<and>
     call (gp_K self) (gp_Xu self) (Some (gp_Xu self)) False \<noteq> None \<and>
     call (gp_K self) (gp_Xu self) (Some (gp_X self)) False \<noteq> None \<and>
     call (gp_K self) (gp_X self) None True \<noteq> None"
  by (auto simp: sparse_logp_unfold sparse_Lamd_def sparse_trace_def split: option.splits)

text \<open>
  C2, amended. When \<^verbatim>\<open>logp\<close> of the sparse variant returns, \<^verbatim>\<open>approx\<close> is \<^verbatim>\<open>FITC\<close> or \<^verbatim>\<open>VFE\<close>
  and the result is the graph \<open>-1 (constant + logdet + quadratic + trace)\<close> built from
  \<open>Lamd\<close> and \<open>trace\<close> in the same way in both modes. Where its parts evaluate (\<open>Lamd\<close> and the
  diagonal of \<open>L_B\<close> positive), its value is
  \<open>-(n/2 ln(2\<pi>) + 1/2 \<Sum>ln(Lamd) + \<Sum>ln(diag(L_B)) + 1/2 (r\<cdot>r_l - c\<cdot>c) + trace)\<close> with
  \<open>r_l = r / Lamd\<close>. Under \<^verbatim>\<open>FITC\<close>, \<open>Lamd\<close> evaluates to \<open>max(0, K_diag(X) - Qffd) + \<sigma>\<^sup>2\<close> entry by
  entry and the trace term to zero; under \<^verbatim>\<open>VFE\<close>, \<open>Lamd\<close> is \<open>\<sigma>\<^sup>2\<close> in every entry and the trace
  term is \<open>(1 / (2\<sigma>\<^sup>2)) (\<Sum>K_diag(X) - \<Sum>Qffd)\<close>. So the two modes differ through \<open>Lamd\<close> (and
  what is computed from it) and through the trace term, and in nothing else.
\<close>

theorem sparse_logp_formula:
  assumes lp: "GPSparseConjugate_logp self y = Some lp"
      and Kuu: "call (gp_K self) (gp_Xu self) (Some (gp_Xu self)) False = Some Kuu"
      and Kuf: "call (gp_K self) (gp_Xu self) (Some (gp_X self)) False = Some Kuf"
      and Kffd: "call (gp_K self) (gp_X self) None True = Some Kffd"
  shows
    "let A = solve_lower (cholesky (stabilize Kuu)) Kuf;
         Qffd = tt_sum_axis (tt_mul A A) 0;
         Lamd = (if gp_approx self = ''FITC''
                 then tt_add (tt_clip (tt_sub Kffd Qffd) 0 None) (gp_sigma2 self)
                 else tt_mul (tt_ones_like Qffd) (gp_sigma2 self));
         trace = (if gp_approx self = ''FITC'' then num 0
                  else tt_mul (tt_true_div (num 1) (tt_mul (num 2) (gp_sigma2 self)))
                              (tt_sub (tt_sum Kffd) (tt_sum Qffd)));
         L_B = cholesky (tt_add (tt_eye (gp_nu self)) (tt_dot (tt_true_div A Lamd) (tt_transpose A)));
         r = tt_sub y (gp_m self (gp_X self));
         r_l = tt_true_div r Lamd;
         c = solve_lower L_B (tt_dot A r_l);
         constant = tt_mul (tt_mul (num (1 / 2)) (gp_nf self)) (tt_log (num (2 * pi)));
         logdet = tt_add (tt_mul (num (1 / 2)) (tt_sum (tt_log Lamd)))
                         (tt_sum (tt_log (tt_diag L_B)));
         quadratic = tt_mul (num (1 / 2)) (tt_sub (tt_dot r r_l) (tt_dot c c))
     in (gp_approx self = ''FITC'' \<or> gp_approx self = ''VFE'') \<and>
        lp = tt_mul (num (- 1)) (tt_add (tt_add (tt_add constant logdet) quadratic) trace) \<and>
        (\<forall>\<rho> n lam LB rv cv t.
           evaluate \<rho> (gp_nf self) = Some (Scalar n) \<and>
           evaluate \<rho> Lamd = Some (Vec lam) \<and> (\<forall>x \<in> set lam. 0 < x) \<and>
           evaluate \<rho> L_B = Some (Mat LB) \<and> (\<forall>x \<in> set (diagonal LB). 0 < x) \<and>
           evaluate \<rho> r = Some (Vec rv) \<and> length rv = length lam \<and>
           evaluate \<rho> c = Some (Vec cv) \<and> evaluate \<rho> trace = Some (Scalar t) \<longrightarrow>
           evaluate \<rho> lp =
             Some (Scalar (- (1 / 2 * n * ln (2 * pi)
                              + (1 / 2 * sum_list (map ln lam) + sum_list (map ln (diagonal LB)))
                              + 1 / 2 * (dotp rv (map2 (/) rv lam) - dotp cv cv) + t)))) \<and>
        (\<forall>\<rho> kd qd s2.
           evaluate \<rho> Kffd = Some (Vec kd) \<and> evaluate \<rho> Qffd = Some (Vec qd) \<and>
           length kd = length qd \<and> evaluate \<rho> (gp_sigma2 self) = Some (Scalar s2) \<longrightarrow>
           (gp_approx self = ''FITC'' \<longrightarrow>
              evaluate \<rho> Lamd = Some (Vec (map2 (\<lambda>k q. max 0 (k - q) + s2) kd qd)) \<and>
              evaluate \<rho> trace = Some (Scalar 0)) \<and>
           (gp_approx self = ''VFE'' \<and> s2 \<noteq> 0 \<longrightarrow>
              evaluate \<rho> Lamd = Some (Vec (map (\<lambda>q. s2) qd)) \<and>
              evaluate \<rho> trace = Some (Scalar (1 / (2 * s2) * (sum_list kd - sum_list qd)))))"
proof -
  define A where "A = solve_lower (cholesky (stabilize Kuu)) Kuf"
  define Qffd where "Qffd = tt_sum_axis (tt_mul A A) 0"
  define Lamd where
    "Lamd = (if gp_approx self = ''FITC''
             then tt_add (tt_clip (tt_sub Kffd Qffd) 0 None) (gp_sigma2 self)
             else tt_mul (tt_ones_like Qffd) (gp_sigma2 self))"
  define trace where
    "trace = (if gp_approx self = ''FITC'' then num 0
              else tt_mul (tt_true_div (num 1) (tt_mul (num 2) (gp_sigma2 self)))
                          (tt_sub (tt_sum Kffd) (tt_sum Qffd)))"
  define L_B where
    "L_B = cholesky (tt_add (tt_eye (gp_nu self)) (tt_dot (tt_true_div A Lamd) (tt_transpose A)))"
  define r where "r = tt_sub y (gp_m self (gp_X self))"
  define c where "c = solve_lower L_B (tt_dot A (tt_true_div r Lamd))"
  have approx: "gp_approx self = ''FITC'' \<or> gp_approx self = ''VFE''"
    using lp Kuu Kuf by (auto simp: sparse_logp_unfold sparse_Lamd_def split: option.splits if_splits)
  have g: "lp = tt_mul (num (- 1))
                  (tt_add
                     (tt_add
                        (tt_add (tt_mul (tt_mul (num (1 / 2)) (gp_nf self)) (tt_log (num (2 * pi))))
                           (tt_add (tt_mul (num (1 / 2)) (tt_sum (tt_log Lamd)))
                                   (tt_sum (tt_log (tt_diag L_B)))))
                        (tt_mul (num (1 / 2)) (tt_sub (tt_dot r (tt_true_div r Lamd)) (tt_dot c c))))
                     trace)"
    using lp Kuu Kuf Kffd approx
    by (auto simp: sparse_logp_unfold sparse_Lamd_def sparse_trace_def Let_def
                   A_def Qffd_def Lamd_def trace_def L_B_def r_def c_def)
  have val: "\<forall>\<rho> n lam LB rv cv t.
            evaluate \<rho> (gp_nf self) = Some (Scalar n) \<and>
            evaluate \<rho> Lamd = Some (Vec lam) \<and> (\<forall>x \<in> set lam. 0 < x) \<and>
            evaluate \<rho> L_B = Some (Mat LB) \<and> (\<forall>x \<in> set (diagonal LB). 0 < x) \<and>
            evaluate \<rho> r = Some (Vec rv) \<and> length rv = length lam \<and>
            evaluate \<rho> c = Some (Vec cv) \<and> evaluate \<rho> trace = Some (Scalar t) \<longrightarrow>
            evaluate \<rho> lp =
              Some (Scalar (- (1 / 2 * n * ln (2 * pi)
                               + (1 / 2 * sum_list (map ln lam) + sum_list (map ln (diagonal LB)))
                               + 1 / 2 * (dotp rv (map2 (/) rv lam) - dotp cv cv) + t)))"
    unfolding g by (intro allI impI) (rule logp_graph_value, simp_all)
  have modes: "\<forall>\<rho> kd qd s2.
            evaluate \<rho> Kffd = Some (Vec kd) \<and> evaluate \<rho> Qffd = Some (Vec qd) \<and>
            length kd = length qd \<and> evaluate \<rho> (gp_sigma2 self) = Some (Scalar s2) \<longrightarrow>
            (gp_approx self = ''FITC'' \<longrightarrow>
               evaluate \<rho> Lamd = Some (Vec (map2 (\<lambda>k q. max 0 (k - q) + s2) kd qd)) \<and>
               evaluate \<rho> trace = Some (Scalar 0)) \<and>
            (gp_approx self = ''VFE'' \<and> s2 \<noteq> 0 \<longrightarrow>
               evaluate \<rho> Lamd = Some (Vec (map (\<lambda>q. s2) qd)) \<and>
               evaluate \<rho> trace = Some (Scalar (1 / (2 * s2) * (sum_list kd - sum_list qd))))"
  proof (intro allI impI conjI; elim conjE)
    fix \<rho> kd qd s2
    assume K: "evaluate \<rho> Kffd = Some (Vec kd)" and Q: "evaluate \<rho> Qffd = Some (Vec qd)"
      and len: "length kd = length qd" and s: "evaluate \<rho> (gp_sigma2 self) = Some (Scalar s2)"
    {
      assume f: "gp_approx self = ''FITC''"
      then have e: "Lamd = tt_add (tt_clip (tt_sub Kffd Qffd) 0 None) (gp_sigma2 self)"
        "trace = num 0" by (simp_all add: Lamd_def trace_def)
      show "evaluate \<rho> Lamd = Some (Vec (map2 (\<lambda>k q. max 0 (k - q) + s2) kd qd))"
        unfolding e by (rule fitc_Lamd_value [OF K Q len s])
      show "evaluate \<rho> trace = Some (Scalar 0)" unfolding e by simp
    }
    {
      assume v: "gp_approx self = ''VFE''" and nz: "s2 \<noteq> 0"
      then have e: "Lamd = tt_mul (tt_ones_like Qffd) (gp_sigma2 self)"
        "trace = tt_mul (tt_true_div (num 1) (tt_mul (num 2) (gp_sigma2 self)))
                        (tt_sub (tt_sum Kffd) (tt_sum Qffd))" by (simp_all add: Lamd_def trace_def)
      show "evaluate \<rho> Lamd = Some (Vec (map (\<lambda>q. s2) qd))"
        unfolding e by (rule vfe_Lamd_value [OF Q s])
      show "evaluate \<rho> trace = Some (Scalar (1 / (2 * s2) * (sum_list kd - sum_list qd)))"
        unfolding e by (rule vfe_trace_value [OF K Q s nz])
    }
  qed
  show ?thesis
    using approx g val modes
    unfolding Let_def A_def Qffd_def Lamd_def trace_def L_B_def r_def c_def
    by (intro conjI)
qed

lemmas logp_eval =
  sparse_eval stabilize_def cholesky_m_def solve_with_def solve_lower_v_def tensor_eval
  f_log_def f_clip_def upt_rec

lemma sqrt_between: "0 \<le> a \<Longrightarrow> sqrt a * c * sqrt a = c * a"
  by (simp add: mult.commute mult.left_commute)

lemma fitc_example_value:
  "evaluate (\<lambda>_. None) (the (GPSparseConjugate_logp fitc_example y0_example))
   = Some (Scalar (- (ln (1000005 / 1000001) / 2) - ln (sqrt (1000001 / 200001)) - ln (2 * pi) / 2))"
  by (simp add: fitc_example_def y0_example_def logp_eval sqrt_between)

lemma vfe_example_value:
  "evaluate (\<lambda>_. None)
     (tt_add (the (GPSparseConjugate_logp sparse_example y0_example))
             (the (sparse_trace sparse_example (the (sparse_A sparse_example)))))
   = Some (Scalar (- (ln (2 * pi) / 2) - ln (sqrt (5000001 / 1000001))))"
  by (simp add: sparse_example_def y0_example_def sparse_trace_def sparse_A_def logp_eval)

lemma ln5_split: "ln (1000005 / 1000001) / 2 + ln (sqrt (1000001 / 200001)) = ln 5 / 2"
proof -
  have "ln (1000005 / 1000001 * (1000001 / 200001)) = ln (1000005 / 1000001) + ln (1000001 / 200001 :: real)"
    by (subst ln_mult_pos) simp_all
  moreover have "1000005 / 1000001 * (1000001 / 200001) = (5 :: real)" by simp
  ultimately show ?thesis by (simp add: ln_sqrt)
qed

text \<open>
  C2 as stated fails: the trace penalty is not the only difference between the two modes.
  With one training input 2, one inducing point 1, the linear kernel, \<open>\<sigma> = 1\<close> and the
  observation 0, the value under \<^verbatim>\<open>FITC\<close> is \<open>-(ln(2\<pi>) + ln 5) / 2\<close>, and the value under
  \<^verbatim>\<open>VFE\<close> with its trace penalty added back is \<open>-(ln(2\<pi>) + ln(5000001 / 1000001)) / 2\<close>:
  \<open>Lamd\<close> differs too.
\<close>

theorem sparse_logp_modes_counterexample:
  "evaluate (\<lambda>_. None) (the (GPSparseConjugate_logp fitc_example y0_example))
     = Some (Scalar (- (ln (2 * pi) / 2) - ln 5 / 2)) \<and>
   evaluate (\<lambda>_. None)
     (tt_add (the (GPSparseConjugate_logp sparse_example y0_example))
             (the (sparse_trace sparse_example (the (sparse_A sparse_example)))))
     = Some (Scalar (- (ln (2 * pi) / 2) - ln (5000001 / 1000001) / 2)) \<and>
   evaluate (\<lambda>_. None) (the (GPSparseConjugate_logp fitc_example y0_example)) \<noteq>
   evaluate (\<lambda>_. None)
     (tt_add (the (GPSparseConjugate_logp sparse_example y0_example))
             (the (sparse_trace sparse_example (the (sparse_A sparse_example)))))"
proof -
  have a: "- (ln (1000005 / 1000001) / 2) - ln (sqrt (1000001 / 200001)) - ln (2 * pi) / 2
           = - (ln (2 * pi) / 2) - ln 5 / 2"
    using ln5_split by simp
  have b: "ln (sqrt (5000001 / 1000001)) = ln (5000001 / 1000001) / 2"
    by (rule ln_sqrt) simp
  have c: "ln 5 \<noteq> ln (5000001 / 1000001 :: real)" by simp
  show ?thesis
    unfolding fitc_example_value vfe_example_value a b using c by simp
qed

theorem sparse_logp_formula_witness:
  "\<exists>lp. GPSparseConjugate_logp sparse_example y0_example = Some lp \<and>
        evaluate (\<lambda>_. None) lp =
          Some (Scalar (- (1 / 2 * 1 * ln (2 * pi)
                           + (1 / 2 * sum_list (map ln [1])
                              + sum_list (map ln (diagonal [[sqrt (5000001 / 1000001)]])))
                           + 1 / 2 * (dotp [0] (map2 (/) [0] [1]) - dotp [0] [0])
                           + 2 / 1000001))) \<and>
        evaluate (\<lambda>_. None) (the (sparse_trace sparse_example (the (sparse_A sparse_example)))) =
          Some (Scalar (1 / (2 * 1) * (sum_list [4] - sum_list [4000000 / 1000001])))"
proof -
  let ?lp = "the (GPSparseConjugate_logp sparse_example y0_example)"
  let ?Kuu = "the (call (gp_K sparse_example) (gp_Xu sparse_example)
                     (Some (gp_Xu sparse_example)) False)"
  let ?Kuf = "the (call (gp_K sparse_example) (gp_Xu sparse_example)
                     (Some (gp_X sparse_example)) False)"
  let ?Kffd = "the (call (gp_K sparse_example) (gp_X sparse_example) None True)"
  have lp: "GPSparseConjugate_logp sparse_example y0_example = Some ?lp"
    by (simp add: sparse_example_def y0_example_def sparse_eval)
  have Kuu: "call (gp_K sparse_example) (gp_Xu sparse_example) (Some (gp_Xu sparse_example)) False
             = Some ?Kuu"
    by (simp add: sparse_example_def sparse_eval)
  have Kuf: "call (gp_K sparse_example) (gp_Xu sparse_example) (Some (gp_X sparse_example)) False
             = Some ?Kuf"
    by (simp add: sparse_example_def sparse_eval)
  have Kffd: "call (gp_K sparse_example) (gp_X sparse_example) None True = Some ?Kffd"
    by (simp add: sparse_example_def sparse_eval)
  note f = sparse_logp_formula [OF lp Kuu Kuf Kffd, unfolded Let_def]
  note val = f [THEN conjunct2, THEN conjunct2, THEN conjunct1, rule_format,
                of "\<lambda>_. None" 1 "[1]" "[[sqrt (5000001 / 1000001)]]" "[0]" "[0]" "2 / 1000001"]
  have "evaluate (\<lambda>_. None) ?lp =
          Some (Scalar (- (1 / 2 * 1 * ln (2 * pi)
                           + (1 / 2 * sum_list (map ln [1])
                              + sum_list (map ln (diagonal [[sqrt (5000001 / 1000001)]])))
                           + 1 / 2 * (dotp [0] (map2 (/) [0] [1]) - dotp [0] [0])
                           + 2 / 1000001)))"
    by (rule val) (simp add: sparse_example_def y0_example_def logp_eval)
  moreover
  note modes = f [THEN conjunct2, THEN conjunct2, THEN conjunct2, rule_format,
                  of "\<lambda>_. None" "[4]" "[4000000 / 1000001]" 1, THEN conjunct2, rule_format]
  have "evaluate (\<lambda>_. None) (the (sparse_trace sparse_example (the (sparse_A sparse_example)))) =
          Some (Scalar (1 / (2 * 1) * (sum_list [4] - sum_list [4000000 / 1000001])))"
    using modes
    by (simp add: sparse_example_def sparse_trace_def sparse_A_def logp_eval)
  ultimately show ?thesis using lp by blast
qed

end
